theory Spec2Isabelle
  imports Complex_Main
begin

section \<open>JavaScript values used by app.js\<close>

text \<open>
  A JavaScript Number is an IEEE-754 binary64 value. The model keeps the five kinds of
  value apart: the three non-finite ones, the negative zero, and every other value by its
  mathematical value, a rational (\<open>Fin 0\<close> is the positive zero). Every binary64
  value is one \<open>jsnum\<close>; the arithmetic and the parsing of the engine, which round,
  are primitives of the runtime (see \<open>js_runtime\<close> below) and stay abstract.
\<close>

datatype jsnum = NaN | PosInf | NegInf | NegZero | Fin rat

text \<open>\<^verbatim>\<open>Number.isNaN(v)\<close>\<close>

definition isNaN :: "jsnum \<Rightarrow> bool" where
  "isNaN v = (case v of NaN \<Rightarrow> True | _ \<Rightarrow> False)"

text \<open>\<^verbatim>\<open>Number.isInteger(v)\<close>: a finite value with no fractional part.\<close>

definition isInteger :: "jsnum \<Rightarrow> bool" where
  "isInteger v = (case v of Fin q \<Rightarrow> of_int \<lfloor>q\<rfloor> = q | NegZero \<Rightarrow> True | _ \<Rightarrow> False)"

text \<open>\<^verbatim>\<open>v > 0\<close> on Numbers.\<close>

definition positive :: "jsnum \<Rightarrow> bool" where
  "positive v = (case v of Fin q \<Rightarrow> 0 < q | PosInf \<Rightarrow> True | _ \<Rightarrow> False)"

text \<open>
  The primitives of the JavaScript engine that app.js calls and that depend on binary64
  rounding or on Unicode tables. Every theorem below holds for every runtime.
  \<^item> \<open>parseFloat\<close>: the global \<^verbatim>\<open>parseFloat\<close>;
  \<^item> \<open>trim\<close>: \<^verbatim>\<open>String.prototype.trim\<close>, which removes the white space and line terminators
    of Unicode at both ends;
  \<^item> \<open>num_sub\<close>, \<open>num_div\<close>: the operators \<^verbatim>\<open>-\<close> and \<^verbatim>\<open>/\<close> on Numbers;
  \<^item> \<open>to_float32\<close>: the conversion \<^verbatim>\<open>Float32Array.from\<close> applies to each entry;
  \<^item> \<open>shortest\<close>: for a finite magnitude, the pair \<open>(s, n)\<close> of Number::toString: the
    shortest decimal digits \<open>s\<close> that read back as the value, and the position \<open>n\<close> of the
    decimal point;
  \<^item> \<open>not_iterable\<close>: the message of the TypeError that \<^verbatim>\<open>Array.from(undefined)\<close> throws,
    which every engine words in its own way.
\<close>

record js_runtime =
  parseFloat :: "string \<Rightarrow> jsnum"
  trim :: "string \<Rightarrow> string"
  num_sub :: "jsnum \<Rightarrow> jsnum \<Rightarrow> jsnum"
  num_div :: "jsnum \<Rightarrow> jsnum \<Rightarrow> jsnum"
  to_float32 :: "jsnum \<Rightarrow> jsnum"
  shortest :: "rat \<Rightarrow> nat \<times> nat"
  not_iterable :: string

subsection \<open>Strings\<close>

text \<open>
  Strings are lists of characters. The two characters of app.js outside ASCII, the
  ellipsis of \<^verbatim>\<open>"Running..."\<close> (U+2026) and the dash shown for an empty result (U+2014),
  are written as their UTF-8 bytes.
\<close>

definition digit_char :: "nat \<Rightarrow> char" where
  "digit_char d = ''0123456789'' ! d"

text \<open>The digit that a character writes, if it is one.\<close>

definition digit_value :: "char \<Rightarrow> nat option" where
  "digit_value c =
     map_of [(CHR ''0'', 0), (CHR ''1'', 1), (CHR ''2'', 2), (CHR ''3'', 3), (CHR ''4'', 4),
             (CHR ''5'', 5), (CHR ''6'', 6), (CHR ''7'', 7), (CHR ''8'', 8), (CHR ''9'', 9)] c"

text \<open>The decimal digits of a natural number, with no leading zero: what a template
  literal gives for a non-negative integer below \<open>10^21\<close>.\<close>

fun decimal :: "nat \<Rightarrow> string" where
  "decimal n = (if n < 10 then [digit_char n] else decimal (n div 10) @ [digit_char (n mod 10)])"

declare decimal.simps [simp del]

section \<open>Configuration and descriptor\<close>

text \<open>
  The constants at the top of app.js (\<^verbatim>\<open>CONFIGURE THESE\<close>). \<^verbatim>\<open>FEATURE_NAMES\<close> is an array
  of strings and \<^verbatim>\<open>FEATURE_COUNT\<close> a Number.
\<close>

record config =
  MODEL_URL :: string
  INPUT_NAME :: string
  OUTPUT_NAME :: string
  FEATURE_NAMES :: "string list"
  FEATURE_COUNT :: jsnum

text \<open>
  The parsed \<^verbatim>\<open>meta.json\<close>. A field is \<open>Some xs\<close> when the JSON object has it and it is an
  array (\<^verbatim>\<open>Array.isArray\<close>), \<open>None\<close> otherwise; the entries of the two scaler arrays are
  held as \<^verbatim>\<open>Number(...)\<close> reads them.
\<close>

record descriptor =
  feature_names :: "string list option"
  scaler_mean :: "jsnum list option"
  scaler_scale :: "jsnum list option"

text \<open>
  Lines 53 to 62 of \<^verbatim>\<open>init\<close>: the feature names the page works with.
  \<^verbatim>\<open>Array.from({ length: N }, (_, i) => `f${i+1}`)\<close> first builds an array of length \<open>N\<close>,
  which throws a RangeError (\<^verbatim>\<open>Invalid array length\<close>) when \<open>N\<close> exceeds \<open>2^32 - 1\<close>, and
  then fills in the names for the indices \<open>0, ..., N - 1\<close> in this order. \<^verbatim>\<open>init\<close> does not
  catch the error: it stops there, before the page is built, the session created and the
  click handlers registered. Below the limit the memory is taken to suffice.
\<close>

datatype init_error = InvalidArrayLength

definition init_featureNames :: "config \<Rightarrow> descriptor option \<Rightarrow> init_error + string list" where
  "init_featureNames cfg meta =
     (if (case meta of None \<Rightarrow> False
          | Some m \<Rightarrow> (case feature_names m of None \<Rightarrow> False | Some xs \<Rightarrow> length xs > 0))
      then Inr (the (feature_names (the meta)))
      else if length (FEATURE_NAMES cfg) > 0 then Inr (FEATURE_NAMES cfg)
      else if isInteger (FEATURE_COUNT cfg) \<and> positive (FEATURE_COUNT cfg)
      then (let n = (case FEATURE_COUNT cfg of Fin q \<Rightarrow> nat \<lfloor>q\<rfloor> | _ \<Rightarrow> 0) in
            if 2 ^ 32 \<le> n then Inl InvalidArrayLength
            else Inr (map (\<lambda>i. ''f'' @ decimal (i + 1)) [0 ..< n]))
      else Inr [])"

text \<open>The scaler \<^verbatim>\<open>{ mean: [], scale: [] }\<close>.\<close>

record scaler_stats =
  mean :: "jsnum list"
  scale :: "jsnum list"

text \<open>Lines 65 to 70 of \<^verbatim>\<open>init\<close>: the scaler is set when the descriptor has both arrays,
  and stays \<^verbatim>\<open>null\<close> otherwise.\<close>

definition init_scaler :: "descriptor option \<Rightarrow> scaler_stats option" where
  "init_scaler meta =
     (case meta of
        None \<Rightarrow> None
      | Some m \<Rightarrow>
          (case (scaler_mean m, scaler_scale m) of
             (Some ms, Some ss) \<Rightarrow> Some \<lparr>mean = ms, scale = ss\<rparr>
           | _ \<Rightarrow> None))"

section \<open>Reading the input row\<close>

text \<open>\<^verbatim>\<open>s.split(",")\<close>: the pieces between the commas, in order; \<open>cur\<close> holds the piece
  being read, reversed.\<close>

fun split_from :: "string \<Rightarrow> string \<Rightarrow> string list" where
  "split_from cur [] = [rev cur]"
| "split_from cur (c # cs) =
     (if c = CHR '','' then rev cur # split_from [] cs else split_from (c # cur) cs)"

definition split_comma :: "string \<Rightarrow> string list" where
  "split_comma s = split_from [] s"

text \<open>
  The part of the page that \<^verbatim>\<open>getRowValues\<close> reads: the value of the Quick Paste box
  \<^verbatim>\<open>csvRow\<close> and, by element id, the value of each number input that \<^verbatim>\<open>init\<close> created.
\<close>

record dom =
  csvRow :: string
  input_value :: "string \<Rightarrow> string"

text \<open>
  What \<^verbatim>\<open>session.run\<close> is given and what it gives back. The feeds object has the one key
  \<^verbatim>\<open>INPUT_NAME\<close>. The run either fails with an error (its message) or returns the outputs
  by name, each output with its \<^verbatim>\<open>data\<close> buffer, the entries as \<^verbatim>\<open>Number(v)\<close> reads them.
\<close>

record tensor =
  dtype :: string
  data :: "jsnum list"
  dims :: "nat list"

type_synonym feeds = "string \<times> tensor"

type_synonym runner = "feeds \<Rightarrow> string + (string \<Rightarrow> jsnum list option)"

text \<open>The globals of app.js that \<^verbatim>\<open>predict\<close> reads: \<^verbatim>\<open>session\<close> (\<open>None\<close> is \<^verbatim>\<open>null\<close>),
  \<^verbatim>\<open>featureNames\<close> and \<^verbatim>\<open>scaler\<close>.\<close>

record app_state =
  session :: "runner option"
  featureNames :: "string list"
  scaler :: "scaler_stats option"

text \<open>\<^verbatim>\<open>getRowValues\<close>. In \<^verbatim>\<open>x || "0"\<close> the empty string is the only falsy string.\<close>

definition getRowValues :: "js_runtime \<Rightarrow> app_state \<Rightarrow> dom \<Rightarrow> jsnum list" where
  "getRowValues rt st d =
     (let csv = trim rt (csvRow d) in
      if length csv > 0
      then filter (\<lambda>v. \<not> isNaN v) (map (\<lambda>s. parseFloat rt (trim rt s)) (split_comma csv))
      else if length (featureNames st) > 0
      then map (\<lambda>n. parseFloat rt
                  (let v = input_value d (''f_'' @ n) in if v = [] then ''0'' else v))
             (featureNames st)
      else [])"

section \<open>Scaling\<close>

text \<open>\<^verbatim>\<open>xs[i]\<close> in arithmetic: past the end the read gives \<^verbatim>\<open>undefined\<close>, which the
  operators convert to \<^verbatim>\<open>NaN\<close>.\<close>

definition num_at :: "jsnum list \<Rightarrow> nat \<Rightarrow> jsnum" where
  "num_at xs i = (if i < length xs then xs ! i else NaN)"

text \<open>\<^verbatim>\<open>zscoreRow\<close>: \<^verbatim>\<open>values.map((v, i) => (v - mean[i]) / scale[i])\<close>.\<close>

definition zscoreRow :: "js_runtime \<Rightarrow> jsnum list \<Rightarrow> jsnum list \<Rightarrow> jsnum list \<Rightarrow> jsnum list" where
  "zscoreRow rt values means scales =
     map (\<lambda>i. num_div rt (num_sub rt (values ! i) (num_at means i)) (num_at scales i))
       [0 ..< length values]"

section \<open>Errors\<close>

text \<open>
  The errors \<^verbatim>\<open>predict\<close> can end with, one constructor for each \<^verbatim>\<open>throw\<close> of the function,
  one for an error thrown by \<^verbatim>\<open>session.run\<close>, and one for a TypeError of the engine, each
  of the last two with its message. All are caught by the one \<^verbatim>\<open>catch\<close>, which writes
  \<^verbatim>\<open>Error: \<close> and the message to the status line.
\<close>

datatype error =
    NoInputValues
  | FeatureCountMismatch nat nat
  | ScalerLengthMismatch
  | OutputNotFound string
  | RunnerError string
  | TypeError string

fun message :: "error \<Rightarrow> string" where
  "message NoInputValues = ''No input values provided.''"
| "message (FeatureCountMismatch expected got) =
     ''Expected '' @ decimal expected @ '' features, got '' @ decimal got @ ''.''"
| "message ScalerLengthMismatch = ''Scaler length does not match feature count.''"
| "message (OutputNotFound name) =
     ''Output named '' @ [CHR 0x22] @ name @ [CHR 0x22] @ '' not found. Check OUTPUT_NAME.''"
| "message (RunnerError msg) = msg"
| "message (TypeError msg) = msg"

text \<open>The classes of the specification's error taxonomy, by the place that throws; a
  TypeError of the engine is in none of them.\<close>

datatype error_class = EmptyInput | ShapeMismatch | MissingOutput | RunnerFailure | Unclassified

fun error_class_of :: "error \<Rightarrow> error_class" where
  "error_class_of NoInputValues = EmptyInput"
| "error_class_of (FeatureCountMismatch expected got) = ShapeMismatch"
| "error_class_of ScalerLengthMismatch = ShapeMismatch"
| "error_class_of (OutputNotFound name) = MissingOutput"
| "error_class_of (RunnerError msg) = RunnerFailure"
| "error_class_of (TypeError msg) = Unclassified"

section \<open>Showing the result\<close>

text \<open>
  \<^verbatim>\<open>Number.prototype.toFixed(6)\<close>, as ECMA-262 defines it on the mathematical value of the
  Number. For a magnitude \<open>a\<close> below \<open>10^21\<close>: \<open>n\<close> is the integer nearest to \<open>a * 10^6\<close>,
  the larger one of two; its digits are padded with zeros on the left to seven at least,
  and the point goes before the last six.
\<close>

definition fixed6_digits :: "rat \<Rightarrow> string" where
  "fixed6_digits a =
     (let n = nat \<lfloor>a * 10 ^ 6 + 1 / 2\<rfloor>;
          m = decimal n;
          m = (if length m \<le> 6 then replicate (6 + 1 - length m) (CHR ''0'') @ m else m);
          k = length m
      in take (k - 6) m @ ''.'' @ drop (k - 6) m)"

text \<open>
  For a magnitude of \<open>10^21\<close> or more \<^verbatim>\<open>toFixed\<close> returns what Number::toString does: the
  shortest digits \<open>s\<close>, a point after the first when there are several, and the exponent
  \<open>n - 1\<close> with its sign, which is \<open>+\<close> here.
\<close>

definition exponent_string :: "js_runtime \<Rightarrow> rat \<Rightarrow> string" where
  "exponent_string rt a =
     (let (s, n) = shortest rt a; ds = decimal s
      in (if length ds = 1 then ds else take 1 ds @ ''.'' @ drop 1 ds)
           @ ''e+'' @ decimal (n - 1))"

definition toFixed6 :: "js_runtime \<Rightarrow> jsnum \<Rightarrow> string" where
  "toFixed6 rt x =
     (case x of
        NaN \<Rightarrow> ''NaN''
      | PosInf \<Rightarrow> ''Infinity''
      | NegInf \<Rightarrow> ''-Infinity''
      | NegZero \<Rightarrow> fixed6_digits 0
      | Fin q \<Rightarrow>
          (if q < 0 then ''-'' else [])
            @ (if 10 ^ 21 \<le> \<bar>q\<bar> then exponent_string rt \<bar>q\<bar> else fixed6_digits \<bar>q\<bar>))"

text \<open>\<^verbatim>\<open>Array.prototype.join\<close> on an array of strings.\<close>

fun join :: "string \<Rightarrow> string list \<Rightarrow> string" where
  "join sep [] = []"
| "join sep [x] = x"
| "join sep (x # y # ys) = x @ sep @ join sep (y # ys)"

text \<open>
  Lines 178 to 182 of \<^verbatim>\<open>predict\<close>: \<^verbatim>\<open>predText\<close> from the output buffer. The two branches
  of the \<^verbatim>\<open>Array.isArray(out.data)\<close> test are the same expression.
\<close>

definition predText :: "js_runtime \<Rightarrow> jsnum list \<Rightarrow> string" where
  "predText rt out_data = join '', '' (map (toFixed6 rt) out_data)"

text \<open>The dash U+2014 that line 184 shows for an empty \<^verbatim>\<open>predText\<close>, in UTF-8.\<close>

definition dash :: string where
  "dash = [CHR 0xE2, CHR 0x80, CHR 0x94]"

text \<open>Line 184: the text written to the result element; the empty string is falsy.\<close>

definition result_text :: "js_runtime \<Rightarrow> jsnum list \<Rightarrow> string" where
  "result_text rt out_data = (let t = predText rt out_data in if t = [] then dash else t)"

section \<open>predict\<close>

text \<open>Lines 160 to 165: the scaler step. \<^verbatim>\<open>if (scaler)\<close> is false for \<^verbatim>\<open>null\<close> only.\<close>

definition predict_scale :: "js_runtime \<Rightarrow> scaler_stats option \<Rightarrow> jsnum list \<Rightarrow> error + jsnum list" where
  "predict_scale rt sc row =
     (case sc of
        None \<Rightarrow> Inr row
      | Some s \<Rightarrow>
          if length (mean s) \<noteq> length row \<or> length (scale s) \<noteq> length row
          then Inl ScalerLengthMismatch
          else Inr (zscoreRow rt row (mean s) (scale s)))"

text \<open>
  Lines 151 to 168: from the page to the input tensor
  \<^verbatim>\<open>new ort.Tensor("float32", Float32Array.from(row), [1, row.length])\<close>, or the error
  thrown on the way.
\<close>

definition predict_tensor :: "js_runtime \<Rightarrow> app_state \<Rightarrow> dom \<Rightarrow> error + tensor" where
  "predict_tensor rt st d =
     (let row = getRowValues rt st d in
      if length row = 0 then Inl NoInputValues
      else if length (featureNames st) > 0 \<and> length row \<noteq> length (featureNames st)
      then Inl (FeatureCountMismatch (length (featureNames st)) (length row))
      else (case predict_scale rt (scaler st) row of
              Inl e \<Rightarrow> Inl e
            | Inr row' \<Rightarrow>
                Inr \<lparr>dtype = ''float32'', data = map (to_float32 rt) row',
                     dims = [1, length row']\<rparr>))"

text \<open>
  What one call of \<^verbatim>\<open>predict\<close> does to the page, with the calls of \<^verbatim>\<open>session.run\<close> it made
  (the feeds of each):
  \<^item> \<open>NotReady\<close>: \<^verbatim>\<open>session\<close> is \<^verbatim>\<open>null\<close> and the function returns at once;
  \<^item> \<open>Failed e calls\<close>: an error was thrown and caught, the status line shows it, the
    result element is as it was;
  \<^item> \<open>Done text calls\<close>: the result element shows \<open>text\<close>, the status line \<^verbatim>\<open>Done.\<close>
\<close>

datatype outcome = NotReady | Failed error "feeds list" | Done string "feeds list"

fun status_line :: "outcome \<Rightarrow> string option" where
  "status_line NotReady = None"
| "status_line (Failed e calls) = Some (''Error: '' @ message e)"
| "status_line (Done text calls) = Some ''Done.''"

fun result_shown :: "outcome \<Rightarrow> string option" where
  "result_shown NotReady = None"
| "result_shown (Failed e calls) = None"
| "result_shown (Done text calls) = Some text"

fun run_calls :: "outcome \<Rightarrow> feeds list" where
  "run_calls NotReady = []"
| "run_calls (Failed e calls) = calls"
| "run_calls (Done text calls) = calls"

fun raised :: "outcome \<Rightarrow> error option" where
  "raised NotReady = None"
| "raised (Failed e calls) = Some e"
| "raised (Done text calls) = None"

text \<open>
  Line 172, \<^verbatim>\<open>outputs[OUTPUT_NAME]\<close>. The object that \<^verbatim>\<open>session.run\<close> resolves to is a plain
  object with one property for each output, so the read finds an output of that name when
  there is one, and otherwise whatever every object inherits under that name from
  \<^verbatim>\<open>Object.prototype\<close>: a function, or \<^verbatim>\<open>Object.prototype\<close> itself for \<^verbatim>\<open>__proto__\<close>. For any
  other name the read gives \<^verbatim>\<open>undefined\<close>.
\<close>

definition inherited_names :: "string list" where
  "inherited_names =
     [''constructor'', ''hasOwnProperty'', ''isPrototypeOf'', ''propertyIsEnumerable'',
      ''toLocaleString'', ''toString'', ''valueOf'', ''__proto__'',
      ''__defineGetter__'', ''__defineSetter__'', ''__lookupGetter__'', ''__lookupSetter__'']"

datatype property = Undefined | Inherited | Output "jsnum list"

definition read_output :: "(string \<Rightarrow> jsnum list option) \<Rightarrow> string \<Rightarrow> property" where
  "read_output outputs name =
     (case outputs name of
        Some out_data \<Rightarrow> Output out_data
      | None \<Rightarrow> if name \<in> set inherited_names then Inherited else Undefined)"

text \<open>
  \<^verbatim>\<open>predict\<close>, lines 145 to 190. Of the three values that \<^verbatim>\<open>out\<close> can be, only \<^verbatim>\<open>undefined\<close>
  is falsy and takes the \<^verbatim>\<open>throw\<close> of line 176. An inherited value is truthy and has no
  \<^verbatim>\<open>data\<close>: \<^verbatim>\<open>Array.isArray(undefined)\<close> is false and \<^verbatim>\<open>Array.from(undefined)\<close> on line
  181 throws a TypeError.
\<close>

definition predict :: "js_runtime \<Rightarrow> config \<Rightarrow> app_state \<Rightarrow> dom \<Rightarrow> outcome" where
  "predict rt cfg st d =
     (case session st of
        None \<Rightarrow> NotReady
      | Some run \<Rightarrow>
          (case predict_tensor rt st d of
             Inl e \<Rightarrow> Failed e []
           | Inr inputTensor \<Rightarrow>
               (let fd = (INPUT_NAME cfg, inputTensor) in
                case run fd of
                  Inl msg \<Rightarrow> Failed (RunnerError msg) [fd]
                | Inr outputs \<Rightarrow>
                    (case read_output outputs (OUTPUT_NAME cfg) of
                       Undefined \<Rightarrow> Failed (OutputNotFound (OUTPUT_NAME cfg)) [fd]
                     | Inherited \<Rightarrow> Failed (TypeError (not_iterable rt)) [fd]
                     | Output out_data \<Rightarrow> Done (result_text rt out_data) [fd]))))"

section \<open>The page\<close>

text \<open>The text of the result element and of the status line.\<close>

record shown =
  result_el :: string
  status_el :: string

text \<open>The page after a call of \<^verbatim>\<open>predict\<close> that ended as \<open>out\<close>.\<close>

definition show_outcome :: "outcome \<Rightarrow> shown \<Rightarrow> shown" where
  "show_outcome out p =
     \<lparr>result_el = (case result_shown out of None \<Rightarrow> result_el p | Some t \<Rightarrow> t),
      status_el = (case status_line out of None \<Rightarrow> status_el p | Some t \<Rightarrow> t)\<rparr>"

text \<open>\<^verbatim>\<open>resetUI\<close>, lines 113 to 122: every number input back to \<^verbatim>\<open>0\<close>, the Quick Paste box
  emptied, the dash in the result element and \<^verbatim>\<open>Ready.\<close> on the status line.\<close>

definition resetUI :: "app_state \<Rightarrow> dom \<times> shown \<Rightarrow> dom \<times> shown" where
  "resetUI st pg =
     (\<lparr>csvRow = [],
       input_value = (\<lambda>id. if id \<in> set (map (\<lambda>n. ''f_'' @ n) (featureNames st)) then ''0''
                           else input_value (fst pg) id)\<rparr>,
      \<lparr>result_el = dash, status_el = ''Ready.''\<rparr>)"

section \<open>Notions used to state the properties\<close>

text \<open>The feature names a descriptor supplies: none when there is no descriptor or when
  its \<^verbatim>\<open>feature_names\<close> is not an array.\<close>

definition descriptor_names :: "descriptor option \<Rightarrow> string list" where
  "descriptor_names meta =
     (case meta of None \<Rightarrow> [] | Some m \<Rightarrow> (case feature_names m of None \<Rightarrow> [] | Some xs \<Rightarrow> xs))"

text \<open>A Number that is finite with a magnitude below \<open>10^21\<close>.\<close>

definition below_1e21 :: "jsnum \<Rightarrow> bool" where
  "below_1e21 v = (case v of Fin q \<Rightarrow> \<bar>q\<bar> < 10 ^ 21 | NegZero \<Rightarrow> True | _ \<Rightarrow> False)"

definition is_digit :: "char \<Rightarrow> bool" where
  "is_digit c = (c \<in> set ''0123456789'')"

text \<open>A string in fixed-point notation with six decimal places: an optional minus sign,
  one digit or more, a point, and six digits.\<close>

definition six_decimals :: "string \<Rightarrow> bool" where
  "six_decimals s =
     (let t = (case s of [] \<Rightarrow> [] | c # cs \<Rightarrow> if c = CHR ''-'' then cs else s) in
      8 \<le> length t
      \<and> list_all is_digit (take (length t - 7) t)
      \<and> t ! (length t - 7) = CHR ''.''
      \<and> list_all is_digit (drop (length t - 6) t))"

text \<open>The number that a string of digits writes, read from the left on top of \<open>acc\<close>; and
  the number of millionths that a string in fixed-point notation with six decimal places
  writes, its sign and point left out.\<close>

fun read_digits :: "nat \<Rightarrow> string \<Rightarrow> nat" where
  "read_digits acc [] = acc"
| "read_digits acc (c # cs) =
     read_digits (10 * acc + (case digit_value c of None \<Rightarrow> 0 | Some v \<Rightarrow> v)) cs"

definition shown_millionths :: "string \<Rightarrow> nat" where
  "shown_millionths s = read_digits 0 (filter (\<lambda>c. c \<noteq> CHR ''-'' \<and> c \<noteq> CHR ''.'') s)"

section \<open>Worked examples\<close>

text \<open>
  A runtime for the worked examples: exact arithmetic on finite values, digit strings
  parsed as the integers they write and every other string as \<^verbatim>\<open>NaN\<close>, the white space
  of ASCII (tab, line feed, vertical tab, form feed, carriage return, space) trimmed, no
  rounding to 32 bits, the digits of \<open>10^21\<close>, and a wording of the TypeError. It agrees with a JavaScript engine on
  the arguments the examples give it: digit strings and the empty string for
  \<^verbatim>\<open>parseFloat\<close>, ASCII text for \<^verbatim>\<open>trim\<close>, small integers with integer quotients for the
  arithmetic.
\<close>

definition is_ws :: "char \<Rightarrow> bool" where
  "is_ws c = (c \<in> set [CHR 0x09, CHR 0x0A, CHR 0x0B, CHR 0x0C, CHR 0x0D, CHR '' ''])"

definition ascii_trim :: "string \<Rightarrow> string" where
  "ascii_trim s = dropWhile is_ws (rev (dropWhile is_ws (rev s)))"

fun parse_digits :: "nat \<Rightarrow> string \<Rightarrow> jsnum" where
  "parse_digits acc [] = Fin (of_nat acc)"
| "parse_digits acc (c # cs) =
     (case digit_value c of None \<Rightarrow> NaN | Some v \<Rightarrow> parse_digits (10 * acc + v) cs)"

definition example_runtime :: js_runtime where
  "example_runtime =
     \<lparr>parseFloat = (\<lambda>s. if s = [] then NaN else parse_digits 0 s),
      trim = ascii_trim,
      num_sub = (\<lambda>a b. case (a, b) of (Fin x, Fin y) \<Rightarrow> Fin (x - y) | _ \<Rightarrow> NaN),
      num_div = (\<lambda>a b. case (a, b) of
                   (Fin x, Fin y) \<Rightarrow> if y = 0 then NaN else Fin (x / y) | _ \<Rightarrow> NaN),
      to_float32 = (\<lambda>a. a),
      shortest = (\<lambda>a. (1, 22)),
      not_iterable = ''undefined is not iterable''\<rparr>"

text \<open>The constants as app.js has them, and a session whose model returns its input
  under the name \<^verbatim>\<open>output\<close>.\<close>

definition example_config :: config where
  "example_config =
     \<lparr>MODEL_URL = ''model.onnx'', INPUT_NAME = ''input'', OUTPUT_NAME = ''output'',
      FEATURE_NAMES = [], FEATURE_COUNT = Fin 0\<rparr>"

definition example_session :: runner where
  "example_session fd = Inr [''output'' \<mapsto> data (snd fd)]"

text \<open>A state with the example session, and a page whose number inputs all hold the same
  text.\<close>

definition example_state :: "string list \<Rightarrow> scaler_stats option \<Rightarrow> app_state" where
  "example_state names sc = \<lparr>session = Some example_session, featureNames = names, scaler = sc\<rparr>"

definition example_page :: "string \<Rightarrow> string \<Rightarrow> dom" where
  "example_page csv v = \<lparr>csvRow = csv, input_value = (\<lambda>id. v)\<rparr>"

section \<open>Feature names\<close>

lemma positive_integer_iff:
  "isInteger count \<and> positive count \<longleftrightarrow> (\<exists>N>0. count = Fin (of_nat N))"
proof
  assume a: "isInteger count \<and> positive count"
  then obtain q where q: "count = Fin q" "of_int \<lfloor>q\<rfloor> = q" "0 < q"
    by (cases count) (auto simp: isInteger_def positive_def)
  have "0 < \<lfloor>q\<rfloor>" using q by (metis of_int_0_less_iff)
  then have "0 < nat \<lfloor>q\<rfloor>" "of_nat (nat \<lfloor>q\<rfloor>) = q" using q by auto
  with q show "\<exists>N>0. count = Fin (of_nat N)" by metis
next
  assume "\<exists>N>0. count = Fin (of_nat N)"
  then show "isInteger count \<and> positive count"
    by (auto simp: isInteger_def positive_def)
qed

text \<open>
  C1, as the code has it. The feature names that \<^verbatim>\<open>init\<close> settles on follow one
  precedence, and exactly one of its branches applies to any descriptor, static name list
  and static count:
  \<^item> the descriptor's names, as they are, when the descriptor supplies a non-empty list;
  \<^item> otherwise the static list \<^verbatim>\<open>FEATURE_NAMES\<close>, as it is, when it is not empty;
  \<^item> otherwise, when \<^verbatim>\<open>FEATURE_COUNT\<close> is a positive integer \<open>N\<close> below \<open>2^32\<close>, the \<open>N\<close>
    names \<^verbatim>\<open>f1\<close>, ..., \<^verbatim>\<open>fN\<close> in this order;
  \<^item> when it is a positive integer of \<open>2^32\<close> or more, no list at all: \<^verbatim>\<open>Array.from\<close> throws
    a RangeError and \<^verbatim>\<open>init\<close> stops;
  \<^item> otherwise the empty list.
  Where \<^verbatim>\<open>init\<close> goes on, the result is a list (never \<^verbatim>\<open>null\<close>).
\<close>

theorem init_featureNames_precedence:
  "(descriptor_names meta \<noteq> [] \<longrightarrow>
      init_featureNames cfg meta = Inr (descriptor_names meta))
   \<and> (descriptor_names meta = [] \<and> FEATURE_NAMES cfg \<noteq> [] \<longrightarrow>
      init_featureNames cfg meta = Inr (FEATURE_NAMES cfg))
   \<and> (descriptor_names meta = [] \<and> FEATURE_NAMES cfg = [] \<and> 0 < N \<and> N < 2 ^ 32
        \<and> FEATURE_COUNT cfg = Fin (of_nat N) \<longrightarrow>
      (\<exists>names. init_featureNames cfg meta = Inr names
         \<and> length names = N
         \<and> (\<forall>i<N. names ! i = ''f'' @ decimal (i + 1))))
   \<and> (descriptor_names meta = [] \<and> FEATURE_NAMES cfg = [] \<and> 2 ^ 32 \<le> N
        \<and> FEATURE_COUNT cfg = Fin (of_nat N) \<longrightarrow>
      init_featureNames cfg meta = Inl InvalidArrayLength)
   \<and> (descriptor_names meta = [] \<and> FEATURE_NAMES cfg = []
        \<and> \<not> (\<exists>K>0. FEATURE_COUNT cfg = Fin (of_nat K)) \<longrightarrow>
      init_featureNames cfg meta = Inr [])"
proof (intro conjI impI)
  assume "descriptor_names meta \<noteq> []"
  then show "init_featureNames cfg meta = Inr (descriptor_names meta)"
    by (auto simp: init_featureNames_def descriptor_names_def split: option.splits)
next
  assume "descriptor_names meta = [] \<and> FEATURE_NAMES cfg \<noteq> []"
  then show "init_featureNames cfg meta = Inr (FEATURE_NAMES cfg)"
    by (auto simp: init_featureNames_def descriptor_names_def split: option.splits)
next
  assume a: "descriptor_names meta = [] \<and> FEATURE_NAMES cfg = [] \<and> 0 < N \<and> N < 2 ^ 32
    \<and> FEATURE_COUNT cfg = Fin (of_nat N)"
  then have pi: "isInteger (FEATURE_COUNT cfg) \<and> positive (FEATURE_COUNT cfg)"
    using positive_integer_iff by blast
  from a pi have eq:
    "init_featureNames cfg meta = Inr (map (\<lambda>i. ''f'' @ decimal (i + 1)) [0 ..< N])"
    by (auto simp: init_featureNames_def descriptor_names_def split: option.splits)
  show "\<exists>names. init_featureNames cfg meta = Inr names
         \<and> length names = N
         \<and> (\<forall>i<N. names ! i = ''f'' @ decimal (i + 1))"
    by (simp add: eq)
next
  assume a: "descriptor_names meta = [] \<and> FEATURE_NAMES cfg = [] \<and> 2 ^ 32 \<le> N
    \<and> FEATURE_COUNT cfg = Fin (of_nat N)"
  then have "0 < N" by (cases N) auto
  with a have pi: "isInteger (FEATURE_COUNT cfg) \<and> positive (FEATURE_COUNT cfg)"
    using positive_integer_iff by blast
  from a pi show "init_featureNames cfg meta = Inl InvalidArrayLength"
    by (auto simp: init_featureNames_def descriptor_names_def split: option.splits)
next
  assume a: "descriptor_names meta = [] \<and> FEATURE_NAMES cfg = []
    \<and> \<not> (\<exists>K>0. FEATURE_COUNT cfg = Fin (of_nat K))"
  then have "\<not> (isInteger (FEATURE_COUNT cfg) \<and> positive (FEATURE_COUNT cfg))"
    using positive_integer_iff by blast
  with a show "init_featureNames cfg meta = Inr []"
    by (auto simp: init_featureNames_def descriptor_names_def split: option.splits)
qed

theorem init_featureNames_precedence_witness:
  "init_featureNames (example_config\<lparr>FEATURE_NAMES := [''a''], FEATURE_COUNT := Fin 3\<rparr>)
      (Some \<lparr>feature_names = Some [''x'', ''y''], scaler_mean = None, scaler_scale = None\<rparr>)
     = Inr [''x'', ''y'']
   \<and> init_featureNames (example_config\<lparr>FEATURE_NAMES := [''a'', ''b''], FEATURE_COUNT := Fin 3\<rparr>)
      None = Inr [''a'', ''b'']
   \<and> init_featureNames (example_config\<lparr>FEATURE_COUNT := Fin 3\<rparr>) None
     = Inr [''f1'', ''f2'', ''f3'']
   \<and> init_featureNames (example_config\<lparr>FEATURE_COUNT := Fin 4294967296\<rparr>) None
     = Inl InvalidArrayLength
   \<and> init_featureNames (example_config\<lparr>FEATURE_COUNT := Fin (5 / 2)\<rparr>) None = Inr []
   \<and> init_featureNames example_config None = Inr []"
proof -
  have n1: "descriptor_names
      (Some \<lparr>feature_names = Some [''x'', ''y''], scaler_mean = None, scaler_scale = None\<rparr>)
      = [''x'', ''y'']"
    and n0: "descriptor_names None = []"
    by (simp_all add: descriptor_names_def)
  have c: "FEATURE_NAMES example_config = []" "FEATURE_COUNT example_config = Fin 0"
    by (simp_all add: example_config_def)
  have "\<not> isInteger (Fin (5 / 2))" by code_simp
  then have k1: "\<not> (\<exists>K>0. Fin (5 / 2) = Fin (of_nat K))"
    using positive_integer_iff [of "Fin (5 / 2)"] by blast
  have k2: "\<not> (\<exists>K>0. Fin 0 = Fin (of_nat K))" by simp
  have d: "decimal (Suc 0) = ''1''" "decimal (Suc (Suc 0)) = ''2''" "decimal 3 = ''3''"
    by (simp_all add: decimal.simps digit_char_def)
  note t1 = init_featureNames_precedence
    [of "Some \<lparr>feature_names = Some [''x'', ''y''], scaler_mean = None, scaler_scale = None\<rparr>"
      "example_config\<lparr>FEATURE_NAMES := [''a''], FEATURE_COUNT := Fin 3\<rparr>" 3]
  note t2 = init_featureNames_precedence
    [of None "example_config\<lparr>FEATURE_NAMES := [''a'', ''b''], FEATURE_COUNT := Fin 3\<rparr>" 3]
  note t3 = init_featureNames_precedence [of None "example_config\<lparr>FEATURE_COUNT := Fin 3\<rparr>" 3]
  note t4 = init_featureNames_precedence
    [of None "example_config\<lparr>FEATURE_COUNT := Fin (5 / 2)\<rparr>" 3]
  note t5 = init_featureNames_precedence [of None example_config 3]
  note t6 = init_featureNames_precedence
    [of None "example_config\<lparr>FEATURE_COUNT := Fin 4294967296\<rparr>" 4294967296]
  have c1: "init_featureNames (example_config\<lparr>FEATURE_NAMES := [''a''], FEATURE_COUNT := Fin 3\<rparr>)
      (Some \<lparr>feature_names = Some [''x'', ''y''], scaler_mean = None, scaler_scale = None\<rparr>)
     = Inr [''x'', ''y'']"
    using t1 n1 by simp
  have c2: "init_featureNames
      (example_config\<lparr>FEATURE_NAMES := [''a'', ''b''], FEATURE_COUNT := Fin 3\<rparr>) None
     = Inr [''a'', ''b'']"
    using t2 n0 by simp
  from t3 n0 c obtain names where names:
    "init_featureNames (example_config\<lparr>FEATURE_COUNT := Fin 3\<rparr>) None = Inr names"
    "length names = 3" "\<And>i. i < 3 \<Longrightarrow> names ! i = ''f'' @ decimal (i + 1)"
    by auto
  from names(2) obtain x y z where "names = [x, y, z]"
    by (cases names; cases "tl names"; cases "tl (tl names)") auto
  with names(3) [of 0] names(3) [of 1] names(3) [of 2] d
  have "names = [''f1'', ''f2'', ''f3'']" by simp
  with names(1)
  have c3: "init_featureNames (example_config\<lparr>FEATURE_COUNT := Fin 3\<rparr>) None
     = Inr [''f1'', ''f2'', ''f3'']"
    by simp
  have c4: "init_featureNames (example_config\<lparr>FEATURE_COUNT := Fin (5 / 2)\<rparr>) None = Inr []"
    using t4 n0 c k1 by simp
  have c5: "init_featureNames example_config None = Inr []" using t5 n0 c k2 by simp
  have c6: "init_featureNames (example_config\<lparr>FEATURE_COUNT := Fin 4294967296\<rparr>) None
     = Inl InvalidArrayLength"
    using t6 n0 c by simp
  from c1 c2 c3 c4 c5 c6 show ?thesis by simp
qed

text \<open>
  \<^verbatim>\<open>FEATURE_COUNT = 4294967296\<close>, with no descriptor and no static names, is a positive
  integer, and \<^verbatim>\<open>init\<close> ends in the RangeError with no names.
\<close>

theorem init_featureNames_precedence_counterexample:
  "descriptor_names None = []
   \<and> FEATURE_NAMES (example_config\<lparr>FEATURE_COUNT := Fin 4294967296\<rparr>) = []
   \<and> isInteger (FEATURE_COUNT (example_config\<lparr>FEATURE_COUNT := Fin 4294967296\<rparr>))
   \<and> positive (FEATURE_COUNT (example_config\<lparr>FEATURE_COUNT := Fin 4294967296\<rparr>))
   \<and> init_featureNames (example_config\<lparr>FEATURE_COUNT := Fin 4294967296\<rparr>) None
       = Inl InvalidArrayLength"
  by (simp add: descriptor_names_def example_config_def isInteger_def positive_def
      init_featureNames_def)

section \<open>predict, step by step\<close>

lemmas example_defs =
  example_state_def example_page_def example_runtime_def example_config_def example_session_def

lemmas row_defs =
  getRowValues_def ascii_trim_def is_ws_def split_comma_def isNaN_def digit_value_def

lemma example_rows:
  "getRowValues example_runtime (example_state names sc) (example_page '','' v) = []"
  "getRowValues example_runtime (example_state names sc) (example_page ''1,2'' v) = [Fin 1, Fin 2]"
  "getRowValues example_runtime (example_state names sc) (example_page ''3,5'' v) = [Fin 3, Fin 5]"
  "getRowValues example_runtime (example_state [''a'', ''b''] sc) (example_page '' '' ''7'') = [Fin 7, Fin 7]"
  "getRowValues example_runtime (example_state [''a'', ''b''] sc) (example_page '' '' ''8'') = [Fin 8, Fin 8]"
  by (simp_all add: example_defs row_defs)

lemma example_fields [simp]:
  "session (example_state names sc) = Some example_session"
  "featureNames (example_state names sc) = names"
  "scaler (example_state names sc) = sc"
  "csvRow (example_page csv v) = csv"
  "input_value (example_page csv v) = (\<lambda>id. v)"
  by (simp_all add: example_state_def example_page_def)

lemma predict_failed:
  "session st = Some run \<Longrightarrow> predict_tensor rt st d = Inl e \<Longrightarrow> predict rt cfg st d = Failed e []"
  by (simp add: predict_def)

lemma predict_tensor_empty:
  "getRowValues rt st d = [] \<Longrightarrow> predict_tensor rt st d = Inl NoInputValues"
  by (simp add: predict_tensor_def)

lemma predict_tensor_count:
  "getRowValues rt st d \<noteq> [] \<Longrightarrow> featureNames st \<noteq> [] \<Longrightarrow>
   length (getRowValues rt st d) \<noteq> length (featureNames st) \<Longrightarrow>
   predict_tensor rt st d
     = Inl (FeatureCountMismatch (length (featureNames st)) (length (getRowValues rt st d)))"
  by (simp add: predict_tensor_def Let_def)

lemma predict_tensor_scaled:
  "getRowValues rt st d \<noteq> [] \<Longrightarrow>
   featureNames st = [] \<or> length (getRowValues rt st d) = length (featureNames st) \<Longrightarrow>
   predict_tensor rt st d
     = (case predict_scale rt (scaler st) (getRowValues rt st d) of
          Inl e \<Rightarrow> Inl e
        | Inr row' \<Rightarrow> Inr \<lparr>dtype = ''float32'', data = map (to_float32 rt) row', dims = [1, length row']\<rparr>)"
  by (auto simp: predict_tensor_def Let_def)

lemma predict_scale_mismatch:
  "length (mean s) \<noteq> length row \<or> length (scale s) \<noteq> length row \<Longrightarrow>
   predict_scale rt (Some s) row = Inl ScalerLengthMismatch"
  by (auto simp: predict_scale_def)

lemma predict_run:
  "session st = Some run \<Longrightarrow> predict_tensor rt st d = Inr t \<Longrightarrow>
   predict rt cfg st d
     = (case run (INPUT_NAME cfg, t) of
          Inl msg \<Rightarrow> Failed (RunnerError msg) [(INPUT_NAME cfg, t)]
        | Inr outputs \<Rightarrow>
            (case read_output outputs (OUTPUT_NAME cfg) of
               Undefined \<Rightarrow> Failed (OutputNotFound (OUTPUT_NAME cfg)) [(INPUT_NAME cfg, t)]
             | Inherited \<Rightarrow> Failed (TypeError (not_iterable rt)) [(INPUT_NAME cfg, t)]
             | Output out_data \<Rightarrow> Done (result_text rt out_data) [(INPUT_NAME cfg, t)]))"
  by (simp add: predict_def Let_def)

lemma zscoreRow_length: "length (zscoreRow rt values means scales) = length values"
  by (simp add: zscoreRow_def)

lemma zscoreRow_nth:
  "i < length values \<Longrightarrow> length means = length values \<Longrightarrow> length scales = length values \<Longrightarrow>
   zscoreRow rt values means scales ! i
     = num_div rt (num_sub rt (values ! i) (means ! i)) (scales ! i)"
  by (simp add: zscoreRow_def num_at_def)

section \<open>Rejected requests\<close>

text \<open>
  \<^verbatim>\<open>predict\<close> is the click handler of the Predict button, and \<^verbatim>\<open>init\<close> registers it after
  \<^verbatim>\<open>session\<close> is set (lines 106 to 109): a prediction request finds a session.
\<close>

text \<open>
  C6. A request whose input row is empty is rejected with the error
  \<^verbatim>\<open>No input values provided.\<close> (the class \<open>EmptyInput\<close>), shown on the status line. The
  check comes first: whatever the feature names and the scaler are, the scaler step is not
  reached, \<^verbatim>\<open>session.run\<close> is not called and the result element is not written.
\<close>

theorem predict_empty_input:
  assumes "session st = Some run" and "getRowValues rt st d = []"
  shows "predict rt cfg st d = Failed NoInputValues []
    \<and> error_class_of NoInputValues = EmptyInput
    \<and> status_line (predict rt cfg st d) = Some ''Error: No input values provided.''
    \<and> result_shown (predict rt cfg st d) = None
    \<and> run_calls (predict rt cfg st d) = []"
  using assms by (simp add: predict_failed predict_tensor_empty)

theorem predict_empty_input_witness:
  "getRowValues example_runtime
       (example_state [''a'', ''b'', ''c''] (Some \<lparr>mean = [Fin 1], scale = [Fin 2]\<rparr>))
       (example_page '','' ''7'') = []
   \<and> predict example_runtime example_config
       (example_state [''a'', ''b'', ''c''] (Some \<lparr>mean = [Fin 1], scale = [Fin 2]\<rparr>))
       (example_page '','' ''7'') = Failed NoInputValues []
   \<and> status_line (predict example_runtime example_config
       (example_state [''a'', ''b'', ''c''] (Some \<lparr>mean = [Fin 1], scale = [Fin 2]\<rparr>))
       (example_page '','' ''7'')) = Some ''Error: No input values provided.''"
  using predict_empty_input [of "example_state [''a'', ''b'', ''c''] (Some \<lparr>mean = [Fin 1], scale = [Fin 2]\<rparr>)"
      example_session example_runtime "example_page '','' ''7''" example_config]
  by (simp add: example_rows)

text \<open>
  C5, as the code has it. With feature names present, a request whose input row is not
  empty and whose length differs from the number of names is rejected with the error
  \<^verbatim>\<open>Expected N features, got M.\<close> (the class \<open>ShapeMismatch\<close>), \<open>N\<close> the number of names
  and \<open>M\<close> the length of the row, before \<^verbatim>\<open>session.run\<close> is called. (An empty row is
  rejected earlier, as C6 says.)
\<close>

theorem predict_count_mismatch:
  assumes "session st = Some run"
    and "featureNames st \<noteq> []"
    and "getRowValues rt st d \<noteq> []"
    and "length (getRowValues rt st d) \<noteq> length (featureNames st)"
  shows "predict rt cfg st d
      = Failed (FeatureCountMismatch (length (featureNames st)) (length (getRowValues rt st d))) []
    \<and> error_class_of (FeatureCountMismatch (length (featureNames st)) (length (getRowValues rt st d)))
        = ShapeMismatch
    \<and> status_line (predict rt cfg st d)
        = Some (''Error: Expected '' @ decimal (length (featureNames st)) @ '' features, got ''
                @ decimal (length (getRowValues rt st d)) @ ''.'')
    \<and> result_shown (predict rt cfg st d) = None
    \<and> run_calls (predict rt cfg st d) = []"
  using assms by (simp add: predict_failed predict_tensor_count)

theorem predict_count_mismatch_witness:
  "getRowValues example_runtime (example_state [''a'', ''b'', ''c''] None) (example_page ''1,2'' ''7'')
      = [Fin 1, Fin 2]
   \<and> predict example_runtime example_config (example_state [''a'', ''b'', ''c''] None)
        (example_page ''1,2'' ''7'') = Failed (FeatureCountMismatch 3 2) []
   \<and> status_line (predict example_runtime example_config (example_state [''a'', ''b'', ''c''] None)
        (example_page ''1,2'' ''7'')) = Some ''Error: Expected 3 features, got 2.''"
  using predict_count_mismatch [of "example_state [''a'', ''b'', ''c''] None"
      example_session example_runtime "example_page ''1,2'' ''7''" example_config]
  by (simp add: example_rows decimal.simps digit_char_def)

text \<open>
  With three feature names and the Quick Paste text \<^verbatim>\<open>,\<close> the row is empty: its length
  differs from three, and the error is the one for an empty row, of class \<open>EmptyInput\<close>.
\<close>

theorem predict_count_mismatch_counterexample:
  "featureNames (example_state [''a'', ''b'', ''c''] None) \<noteq> []
   \<and> length (getRowValues example_runtime (example_state [''a'', ''b'', ''c''] None)
        (example_page '','' ''7'')) \<noteq> length (featureNames (example_state [''a'', ''b'', ''c''] None))
   \<and> raised (predict example_runtime example_config (example_state [''a'', ''b'', ''c''] None)
        (example_page '','' ''7'')) = Some NoInputValues
   \<and> error_class_of NoInputValues \<noteq> ShapeMismatch"
  by (simp add: example_rows predict_failed predict_tensor_empty)

text \<open>
  C3, as the code has it. With a scaler present, a request whose input row is not empty
  and whose length differs from the length of the scaler's \<^verbatim>\<open>mean\<close> or \<^verbatim>\<open>scale\<close> is rejected
  with an error of class \<open>ShapeMismatch\<close>, shown on the status line: \<^verbatim>\<open>session.run\<close> is not
  called and nothing is written to the result element, so the scaling is neither skipped nor
  applied to a shortened or padded row. The error is
  \<^verbatim>\<open>Scaler length does not match feature count.\<close> when the row passes the check of C5, and
  the error of C5 otherwise.
\<close>

theorem predict_scaler_mismatch:
  assumes "session st = Some run"
    and "scaler st = Some s"
    and "getRowValues rt st d \<noteq> []"
    and "length (mean s) \<noteq> length (getRowValues rt st d)
         \<or> length (scale s) \<noteq> length (getRowValues rt st d)"
  shows "(featureNames st = [] \<or> length (getRowValues rt st d) = length (featureNames st) \<longrightarrow>
            predict rt cfg st d = Failed ScalerLengthMismatch []
            \<and> status_line (predict rt cfg st d)
                = Some ''Error: Scaler length does not match feature count.'')
    \<and> (\<exists>e. raised (predict rt cfg st d) = Some e \<and> error_class_of e = ShapeMismatch)
    \<and> result_shown (predict rt cfg st d) = None
    \<and> run_calls (predict rt cfg st d) = []"
proof (cases "featureNames st = [] \<or> length (getRowValues rt st d) = length (featureNames st)")
  case True
  then have "predict_tensor rt st d = Inl ScalerLengthMismatch"
    using assms by (simp add: predict_tensor_scaled predict_scale_mismatch)
  then have "predict rt cfg st d = Failed ScalerLengthMismatch []"
    using assms(1) by (rule predict_failed [rotated])
  then show ?thesis by simp
next
  case False
  then have "predict rt cfg st d
      = Failed (FeatureCountMismatch (length (featureNames st)) (length (getRowValues rt st d))) []"
    using assms by (simp add: predict_failed predict_tensor_count)
  with False show ?thesis by simp
qed

theorem predict_scaler_mismatch_witness:
  "getRowValues example_runtime
       (example_state [] (Some \<lparr>mean = [Fin 1], scale = [Fin 2]\<rparr>)) (example_page ''1,2'' ''7'')
     = [Fin 1, Fin 2]
   \<and> predict example_runtime example_config
       (example_state [] (Some \<lparr>mean = [Fin 1], scale = [Fin 2]\<rparr>)) (example_page ''1,2'' ''7'')
     = Failed ScalerLengthMismatch []
   \<and> status_line (predict example_runtime example_config
       (example_state [] (Some \<lparr>mean = [Fin 1], scale = [Fin 2]\<rparr>)) (example_page ''1,2'' ''7''))
     = Some ''Error: Scaler length does not match feature count.''
   \<and> run_calls (predict example_runtime example_config
       (example_state [] (Some \<lparr>mean = [Fin 1], scale = [Fin 2]\<rparr>)) (example_page ''1,2'' ''7''))
     = []"
  using predict_scaler_mismatch [of "example_state [] (Some \<lparr>mean = [Fin 1], scale = [Fin 2]\<rparr>)"
      example_session "\<lparr>mean = [Fin 1], scale = [Fin 2]\<rparr>" example_runtime
      "example_page ''1,2'' ''7''" example_config]
  by (simp add: example_rows)

text \<open>
  With a scaler of length one and the Quick Paste text \<^verbatim>\<open>,\<close> the row is empty: the scaler's
  length differs from the row's, and the error is the one for an empty row, of class
  \<open>EmptyInput\<close>.
\<close>

theorem predict_scaler_mismatch_counterexample:
  "scaler (example_state [] (Some \<lparr>mean = [Fin 1], scale = [Fin 2]\<rparr>))
     = Some \<lparr>mean = [Fin 1], scale = [Fin 2]\<rparr>
   \<and> length (mean \<lparr>mean = [Fin 1], scale = [Fin 2]\<rparr>)
       \<noteq> length (getRowValues example_runtime
            (example_state [] (Some \<lparr>mean = [Fin 1], scale = [Fin 2]\<rparr>)) (example_page '','' ''7''))
   \<and> raised (predict example_runtime example_config
       (example_state [] (Some \<lparr>mean = [Fin 1], scale = [Fin 2]\<rparr>)) (example_page '','' ''7''))
     = Some NoInputValues
   \<and> error_class_of NoInputValues \<noteq> ShapeMismatch"
  by (simp add: example_rows predict_failed predict_tensor_empty)

text \<open>
  C4, as the code has it. The scaler step passes the row through unchanged when there is
  no scaler. With a scaler whose \<^verbatim>\<open>mean\<close> or \<^verbatim>\<open>scale\<close> differs in length from the row, the
  step throws \<^verbatim>\<open>Scaler length does not match feature count.\<close>; the step throws in this case
  and in no other. There is no scaler exactly when there is no descriptor or the descriptor
  lacks one of the two arrays.
\<close>

theorem predict_scale_passthrough:
  "predict_scale rt None row = Inr row
   \<and> (length (mean s) \<noteq> length row \<or> length (scale s) \<noteq> length row \<longrightarrow>
        predict_scale rt (Some s) row = Inl ScalerLengthMismatch)
   \<and> ((\<exists>e. predict_scale rt sc row = Inl e)
        \<longleftrightarrow> (\<exists>p. sc = Some p \<and> (length (mean p) \<noteq> length row \<or> length (scale p) \<noteq> length row)))
   \<and> (init_scaler meta = None
        \<longleftrightarrow> (\<forall>m. meta = Some m \<longrightarrow> scaler_mean m = None \<or> scaler_scale m = None))"
  by (auto simp: predict_scale_def init_scaler_def split: option.splits)

theorem predict_scale_passthrough_witness:
  "predict_scale example_runtime None [Fin 1, Fin 2] = Inr [Fin 1, Fin 2]
   \<and> predict_scale example_runtime (Some \<lparr>mean = [Fin 1], scale = [Fin 2]\<rparr>) [Fin 1, Fin 2]
       = Inl ScalerLengthMismatch
   \<and> init_scaler
        (Some \<lparr>feature_names = None, scaler_mean = Some [Fin 1], scaler_scale = None\<rparr>) = None"
  using predict_scale_passthrough [where rt = example_runtime and row = "[Fin 1, Fin 2]"
      and s = "\<lparr>mean = [Fin 1], scale = [Fin 2]\<rparr>" and sc = None
      and meta = "Some \<lparr>feature_names = None, scaler_mean = Some [Fin 1], scaler_scale = None\<rparr>"]
  by simp

text \<open>
  With a scaler of length one and the row \<^verbatim>\<open>1,2\<close> the request fails: the row does not pass
  through.
\<close>

theorem predict_scale_passthrough_counterexample:
  "predict example_runtime example_config
       (example_state [] (Some \<lparr>mean = [Fin 1], scale = [Fin 2]\<rparr>)) (example_page ''1,2'' ''7'')
     = Failed ScalerLengthMismatch []
   \<and> predict_scale example_runtime (Some \<lparr>mean = [Fin 1], scale = [Fin 2]\<rparr>) [Fin 1, Fin 2]
       \<noteq> Inr [Fin 1, Fin 2]"
  by (simp add: example_rows predict_failed predict_tensor_scaled predict_scale_mismatch)

section \<open>Scaling and the call of the model\<close>

lemma example_tensor:
  "predict_tensor example_runtime (example_state [] None\<lparr>session := Some run\<rparr>) (example_page ''3,5'' v)
     = Inr \<lparr>dtype = ''float32'', data = [Fin 3, Fin 5], dims = [1, 2]\<rparr>"
proof -
  have "getRowValues example_runtime (example_state [] None\<lparr>session := Some run\<rparr>) (example_page ''3,5'' v)
      = [Fin 3, Fin 5]"
    by (simp add: example_defs row_defs)
  then show ?thesis
    by (simp add: predict_tensor_def predict_scale_def) (simp add: example_runtime_def)
qed

lemma example_zscore:
  "zscoreRow example_runtime [Fin 3, Fin 5] [Fin 1, Fin 1] [Fin 2, Fin 2] = [Fin 1, Fin 2]"
  by (simp add: zscoreRow_def num_at_def example_runtime_def upt_rec)

text \<open>
  C2. For a row of length \<open>n\<close> and a scaler whose \<^verbatim>\<open>mean\<close> and \<^verbatim>\<open>scale\<close> both have length
  \<open>n\<close>, the scaler step returns a row of length \<open>n\<close> whose entry \<open>i\<close> is
  \<^verbatim>\<open>(row[i] - mean[i]) / scale[i]\<close>, for every \<open>i < n\<close> and whatever the engine's
  subtraction and division are. With no scaler the step returns the row as it is. In a
  request that passes the checks before the step, the tensor given to \<^verbatim>\<open>session.run\<close> holds
  the scaled row, or the row itself when there is no scaler, each entry converted to 32
  bits, with the shape \<open>[1, n]\<close>.
\<close>

theorem predict_zscore:
  "(length (mean s) = length row \<and> length (scale s) = length row \<longrightarrow>
      predict_scale rt (Some s) row = Inr (zscoreRow rt row (mean s) (scale s))
      \<and> length (zscoreRow rt row (mean s) (scale s)) = length row
      \<and> (\<forall>i<length row. zscoreRow rt row (mean s) (scale s) ! i
             = num_div rt (num_sub rt (row ! i) (mean s ! i)) (scale s ! i)))
   \<and> predict_scale rt None row = Inr row
   \<and> (session st = Some run \<and> getRowValues rt st d = row \<and> row \<noteq> []
        \<and> (featureNames st = [] \<or> length row = length (featureNames st))
        \<and> scaler st = None \<longrightarrow>
      run_calls (predict rt cfg st d)
        = [(INPUT_NAME cfg,
            \<lparr>dtype = ''float32'', data = map (to_float32 rt) row, dims = [1, length row]\<rparr>)])
   \<and> (session st = Some run \<and> getRowValues rt st d = row \<and> row \<noteq> []
        \<and> (featureNames st = [] \<or> length row = length (featureNames st))
        \<and> scaler st = Some s \<and> length (mean s) = length row \<and> length (scale s) = length row \<longrightarrow>
      run_calls (predict rt cfg st d)
        = [(INPUT_NAME cfg,
            \<lparr>dtype = ''float32'',
             data = map (to_float32 rt) (zscoreRow rt row (mean s) (scale s)),
             dims = [1, length row]\<rparr>)])"
proof (intro conjI impI)
  assume "length (mean s) = length row \<and> length (scale s) = length row"
  then show "predict_scale rt (Some s) row = Inr (zscoreRow rt row (mean s) (scale s))"
    and "\<forall>i<length row. zscoreRow rt row (mean s) (scale s) ! i
             = num_div rt (num_sub rt (row ! i) (mean s ! i)) (scale s ! i)"
    by (simp_all add: predict_scale_def zscoreRow_nth)
next
  show "length (zscoreRow rt row (mean s) (scale s)) = length row"
    by (rule zscoreRow_length)
next
  show "predict_scale rt None row = Inr row" by (simp add: predict_scale_def)
next
  assume a: "session st = Some run \<and> getRowValues rt st d = row \<and> row \<noteq> []
        \<and> (featureNames st = [] \<or> length row = length (featureNames st))
        \<and> scaler st = None"
  then have "predict_tensor rt st d
      = Inr \<lparr>dtype = ''float32'', data = map (to_float32 rt) row, dims = [1, length row]\<rparr>"
    by (simp add: predict_tensor_scaled predict_scale_def)
  with a show "run_calls (predict rt cfg st d)
        = [(INPUT_NAME cfg,
            \<lparr>dtype = ''float32'', data = map (to_float32 rt) row, dims = [1, length row]\<rparr>)]"
    by (simp add: predict_run split: sum.splits property.splits)
next
  assume a: "session st = Some run \<and> getRowValues rt st d = row \<and> row \<noteq> []
        \<and> (featureNames st = [] \<or> length row = length (featureNames st))
        \<and> scaler st = Some s \<and> length (mean s) = length row \<and> length (scale s) = length row"
  then have "predict_tensor rt st d
      = Inr \<lparr>dtype = ''float32'', data = map (to_float32 rt) (zscoreRow rt row (mean s) (scale s)),
             dims = [1, length row]\<rparr>"
    by (simp add: predict_tensor_scaled predict_scale_def zscoreRow_length)
  with a show "run_calls (predict rt cfg st d)
        = [(INPUT_NAME cfg,
            \<lparr>dtype = ''float32'',
             data = map (to_float32 rt) (zscoreRow rt row (mean s) (scale s)),
             dims = [1, length row]\<rparr>)]"
    by (simp add: predict_run split: sum.splits property.splits)
qed

theorem predict_zscore_witness:
  "predict_scale example_runtime (Some \<lparr>mean = [Fin 1, Fin 1], scale = [Fin 2, Fin 2]\<rparr>)
       [Fin 3, Fin 5] = Inr [Fin 1, Fin 2]
   \<and> run_calls (predict example_runtime example_config
         (example_state [''x'', ''y''] (Some \<lparr>mean = [Fin 1, Fin 1], scale = [Fin 2, Fin 2]\<rparr>))
         (example_page ''3,5'' ''0''))
       = [(''input'', \<lparr>dtype = ''float32'', data = [Fin 1, Fin 2], dims = [1, 2]\<rparr>)]
   \<and> run_calls (predict example_runtime example_config
         (example_state [''x'', ''y''] None) (example_page ''3,5'' ''0''))
       = [(''input'', \<lparr>dtype = ''float32'', data = [Fin 3, Fin 5], dims = [1, 2]\<rparr>)]"
proof -
  have c: "INPUT_NAME example_config = ''input''" by (simp add: example_config_def)
  have f: "to_float32 example_runtime = (\<lambda>a. a)" by (simp add: example_runtime_def)
  note a = predict_zscore [where s = "\<lparr>mean = [Fin 1, Fin 1], scale = [Fin 2, Fin 2]\<rparr>"
      and row = "[Fin 3, Fin 5]" and rt = example_runtime and cfg = example_config
      and run = example_session and d = "example_page ''3,5'' ''0''"
      and st = "example_state [''x'', ''y''] (Some \<lparr>mean = [Fin 1, Fin 1], scale = [Fin 2, Fin 2]\<rparr>)"]
  note b = predict_zscore [where s = "\<lparr>mean = [Fin 1, Fin 1], scale = [Fin 2, Fin 2]\<rparr>"
      and row = "[Fin 3, Fin 5]" and rt = example_runtime and cfg = example_config
      and run = example_session and d = "example_page ''3,5'' ''0''"
      and st = "example_state [''x'', ''y''] None"]
  from a have a': "predict_scale example_runtime (Some \<lparr>mean = [Fin 1, Fin 1], scale = [Fin 2, Fin 2]\<rparr>)
       [Fin 3, Fin 5] = Inr [Fin 1, Fin 2]
   \<and> run_calls (predict example_runtime example_config
         (example_state [''x'', ''y''] (Some \<lparr>mean = [Fin 1, Fin 1], scale = [Fin 2, Fin 2]\<rparr>))
         (example_page ''3,5'' ''0''))
       = [(''input'', \<lparr>dtype = ''float32'', data = [Fin 1, Fin 2], dims = [1, 2]\<rparr>)]"
    by (simp add: example_rows example_zscore c f)
  from b have b': "run_calls (predict example_runtime example_config
         (example_state [''x'', ''y''] None) (example_page ''3,5'' ''0''))
       = [(''input'', \<lparr>dtype = ''float32'', data = [Fin 3, Fin 5], dims = [1, 2]\<rparr>)]"
    by (simp add: example_rows c f)
  from a' b' show ?thesis by simp
qed

text \<open>
  The end of a request that reached \<^verbatim>\<open>session.run\<close>. An error of the run is shown with its
  own message. When the run returns and has no output under \<^verbatim>\<open>OUTPUT_NAME\<close>, the error is
  \<^verbatim>\<open>Output named "..." not found. Check OUTPUT_NAME.\<close>, with the configured name, for every
  name but those that every object inherits; for those it is the TypeError of the engine.
\<close>

lemma predict_runner_error:
  assumes "session st = Some run" and "predict_tensor rt st d = Inr t"
    and "run (INPUT_NAME cfg, t) = Inl msg"
  shows "predict rt cfg st d = Failed (RunnerError msg) [(INPUT_NAME cfg, t)]"
    and "status_line (predict rt cfg st d) = Some (''Error: '' @ msg)"
  using assms by (simp_all add: predict_run)

lemma predict_output_lookup:
  assumes "session st = Some run" and "predict_tensor rt st d = Inr t"
    and "run (INPUT_NAME cfg, t) = Inr outputs" and "outputs (OUTPUT_NAME cfg) = None"
  shows "OUTPUT_NAME cfg \<notin> set inherited_names \<Longrightarrow>
      predict rt cfg st d = Failed (OutputNotFound (OUTPUT_NAME cfg)) [(INPUT_NAME cfg, t)]"
    and "OUTPUT_NAME cfg \<notin> set inherited_names \<Longrightarrow>
      status_line (predict rt cfg st d)
        = Some (''Error: Output named '' @ [CHR 0x22] @ OUTPUT_NAME cfg @ [CHR 0x22]
                @ '' not found. Check OUTPUT_NAME.'')"
    and "OUTPUT_NAME cfg \<in> set inherited_names \<Longrightarrow>
      predict rt cfg st d = Failed (TypeError (not_iterable rt)) [(INPUT_NAME cfg, t)]"
    and "OUTPUT_NAME cfg \<in> set inherited_names \<Longrightarrow>
      status_line (predict rt cfg st d) = Some (''Error: '' @ not_iterable rt)"
  using assms by (simp_all add: predict_run read_output_def)

text \<open>
  C7 fails on the code. With \<^verbatim>\<open>OUTPUT_NAME = "toString"\<close> and a model whose only output is
  named \<^verbatim>\<open>output\<close>, the outputs of the run have no entry under the configured name. Line
  172 reads the function that every object inherits under that name, the test of line 175
  lets it pass, and \<^verbatim>\<open>predict\<close> ends in the TypeError of \<^verbatim>\<open>Array.from(undefined)\<close>: the status
  line shows the engine's message, which does not name the configured output, and not the
  \<^verbatim>\<open>not found\<close> error that lines 175 to 177 are there to raise.
\<close>

theorem predict_inherited_output_name:
  "example_session (''input'', \<lparr>dtype = ''float32'', data = [Fin 3, Fin 5], dims = [1, 2]\<rparr>)
     = Inr [''output'' \<mapsto> [Fin 3, Fin 5]]
   \<and> [''output'' \<mapsto> [Fin 3, Fin 5]] ''toString'' = None
   \<and> predict example_runtime (example_config\<lparr>OUTPUT_NAME := ''toString''\<rparr>)
       (example_state [] None\<lparr>session := Some example_session\<rparr>) (example_page ''3,5'' ''0'')
     = Failed (TypeError ''undefined is not iterable'')
         [(''input'', \<lparr>dtype = ''float32'', data = [Fin 3, Fin 5], dims = [1, 2]\<rparr>)]
   \<and> status_line (predict example_runtime (example_config\<lparr>OUTPUT_NAME := ''toString''\<rparr>)
       (example_state [] None\<lparr>session := Some example_session\<rparr>) (example_page ''3,5'' ''0''))
     = Some ''Error: undefined is not iterable''
   \<and> raised (predict example_runtime (example_config\<lparr>OUTPUT_NAME := ''toString''\<rparr>)
       (example_state [] None\<lparr>session := Some example_session\<rparr>) (example_page ''3,5'' ''0''))
     \<noteq> Some (OutputNotFound ''toString'')"
proof -
  define T where "T = \<lparr>dtype = ''float32'', data = [Fin 3, Fin 5], dims = [1, 2]\<rparr>"
  have c: "INPUT_NAME (example_config\<lparr>OUTPUT_NAME := ''toString''\<rparr>) = ''input''"
    "OUTPUT_NAME (example_config\<lparr>OUTPUT_NAME := ''toString''\<rparr>) = ''toString''"
    by (simp_all add: example_config_def)
  have s: "session (example_state [] None\<lparr>session := Some example_session\<rparr>) = Some example_session"
    by simp
  have t: "predict_tensor example_runtime (example_state [] None\<lparr>session := Some example_session\<rparr>)
      (example_page ''3,5'' ''0'') = Inr T"
    unfolding T_def by (rule example_tensor)
  have r: "example_session (''input'', T) = Inr [''output'' \<mapsto> [Fin 3, Fin 5]]"
    by (simp add: example_session_def T_def)
  have n: "[''output'' \<mapsto> [Fin 3, Fin 5]] ''toString'' = None" by simp
  have i: "''toString'' \<in> set inherited_names" by (simp add: inherited_names_def)
  have m: "not_iterable example_runtime = ''undefined is not iterable''"
    by (simp add: example_runtime_def)
  have p: "predict example_runtime (example_config\<lparr>OUTPUT_NAME := ''toString''\<rparr>)
       (example_state [] None\<lparr>session := Some example_session\<rparr>) (example_page ''3,5'' ''0'')
     = Failed (TypeError ''undefined is not iterable'') [(''input'', T)]"
    using predict_output_lookup(3) [OF s t, where cfg = "example_config\<lparr>OUTPUT_NAME := ''toString''\<rparr>"
        and outputs = "[''output'' \<mapsto> [Fin 3, Fin 5]]"] r n i
    by (simp add: c m)
  show ?thesis using r n unfolding p by (simp add: T_def)
qed

section \<open>The input row\<close>

text \<open>
  C10, as the code has it. \<^verbatim>\<open>getRowValues\<close> trims the Quick Paste text first. When the
  trimmed text is not empty, the row is read from it alone: its pieces between commas,
  trimmed and parsed, without those that parse to \<^verbatim>\<open>NaN\<close>; the number inputs and the
  feature names play no part. When the trimmed text is empty, the row has one entry for
  each feature name, in the order of the names: the parsed value of the name's input, an
  empty input read as \<^verbatim>\<open>0\<close>.
\<close>

theorem getRowValues_precedence:
  "(trim rt (csvRow d) \<noteq> [] \<longrightarrow>
      getRowValues rt st d
        = filter (\<lambda>v. \<not> isNaN v)
            (map (\<lambda>s. parseFloat rt (trim rt s)) (split_comma (trim rt (csvRow d)))))
   \<and> (trim rt (csvRow d) \<noteq> [] \<and> csvRow d' = csvRow d \<longrightarrow>
      getRowValues rt st' d' = getRowValues rt st d)
   \<and> (trim rt (csvRow d) = [] \<longrightarrow>
      length (getRowValues rt st d) = length (featureNames st)
      \<and> (\<forall>i<length (featureNames st).
            getRowValues rt st d ! i
              = parseFloat rt
                  (if input_value d (''f_'' @ featureNames st ! i) = [] then ''0''
                   else input_value d (''f_'' @ featureNames st ! i))))"
  by (auto simp: getRowValues_def Let_def)

theorem getRowValues_precedence_witness:
  "getRowValues example_runtime (example_state [''a'', ''b''] None) (example_page ''1,2'' ''7'')
      = [Fin 1, Fin 2]
   \<and> getRowValues example_runtime (example_state [''a'', ''b''] None) (example_page ''1,2'' ''8'')
      = getRowValues example_runtime (example_state [''a'', ''b''] None) (example_page ''1,2'' ''7'')
   \<and> length (getRowValues example_runtime (example_state [''a'', ''b''] None) (example_page [] ''7'')) = 2
   \<and> getRowValues example_runtime (example_state [''a'', ''b''] None) (example_page [] ''7'') ! 0 = Fin 7
   \<and> getRowValues example_runtime (example_state [''a'', ''b''] None) (example_page [] ''7'') ! 1 = Fin 7"
proof -
  have t: "trim example_runtime ''1,2'' = ''1,2''" "trim example_runtime [] = []"
    "trim example_runtime ''1'' = ''1''" "trim example_runtime ''2'' = ''2''"
    by (simp_all add: example_runtime_def ascii_trim_def is_ws_def)
  have p: "parseFloat example_runtime ''1'' = Fin 1" "parseFloat example_runtime ''2'' = Fin 2"
    "parseFloat example_runtime ''7'' = Fin 7"
    by (simp_all add: example_runtime_def digit_value_def)
  have sp: "split_comma ''1,2'' = [''1'', ''2'']" by (simp add: split_comma_def)
  note a = getRowValues_precedence [where d = "example_page ''1,2'' ''7''" and rt = example_runtime
      and st = "example_state [''a'', ''b''] None" and d' = "example_page ''1,2'' ''8''"
      and st' = "example_state [''a'', ''b''] None"]
  note b = getRowValues_precedence [where d = "example_page [] ''7''" and rt = example_runtime
      and st = "example_state [''a'', ''b''] None" and d' = "example_page [] ''7''"
      and st' = "example_state [''a'', ''b''] None"]
  from a have a': "getRowValues example_runtime (example_state [''a'', ''b''] None) (example_page ''1,2'' ''7'')
      = [Fin 1, Fin 2]
   \<and> getRowValues example_runtime (example_state [''a'', ''b''] None) (example_page ''1,2'' ''8'')
      = getRowValues example_runtime (example_state [''a'', ''b''] None) (example_page ''1,2'' ''7'')"
    by (simp add: t p sp isNaN_def)
  from b have len: "length (getRowValues example_runtime (example_state [''a'', ''b''] None)
        (example_page [] ''7'')) = 2"
    and nth: "\<And>i. i < 2 \<Longrightarrow> getRowValues example_runtime (example_state [''a'', ''b''] None)
        (example_page [] ''7'') ! i = Fin 7"
    by (simp_all add: t p)
  from len nth [of 0] nth [of 1]
  have b': "length (getRowValues example_runtime (example_state [''a'', ''b''] None) (example_page [] ''7'')) = 2
   \<and> getRowValues example_runtime (example_state [''a'', ''b''] None) (example_page [] ''7'') ! 0 = Fin 7
   \<and> getRowValues example_runtime (example_state [''a'', ''b''] None) (example_page [] ''7'') ! 1 = Fin 7"
    by simp
  from a' b' show ?thesis by simp
qed

text \<open>
  A Quick Paste text of one space is not empty, and the row is read from the number
  inputs: two pages with this text and different inputs give different rows.
\<close>

theorem getRowValues_precedence_counterexample:
  "csvRow (example_page '' '' ''7'') \<noteq> []
   \<and> csvRow (example_page '' '' ''8'') = csvRow (example_page '' '' ''7'')
   \<and> getRowValues example_runtime (example_state [''a'', ''b''] None) (example_page '' '' ''7'')
       = [Fin 7, Fin 7]
   \<and> getRowValues example_runtime (example_state [''a'', ''b''] None) (example_page '' '' ''8'')
       = [Fin 8, Fin 8]"
  by (simp add: example_rows)

section \<open>The shown result\<close>

subsection \<open>Decimal digits\<close>

lemma digit_char_props:
  "d < 10 \<Longrightarrow> is_digit (digit_char d)"
  "d < 10 \<Longrightarrow> digit_value (digit_char d) = Some d"
proof -
  have "list_all (\<lambda>d. is_digit (digit_char d) \<and> digit_value (digit_char d) = Some d) [0 ..< 10]"
    by code_simp
  then show "d < 10 \<Longrightarrow> is_digit (digit_char d)"
    and "d < 10 \<Longrightarrow> digit_value (digit_char d) = Some d"
    by (simp_all add: list_all_iff)
qed

lemma is_digit_not_mark: "is_digit c \<Longrightarrow> c \<noteq> CHR ''-'' \<and> c \<noteq> CHR ''.'' \<and> c \<noteq> CHR 0xE2"
  by (auto simp: is_digit_def)

lemma decimal_nonempty: "decimal n \<noteq> []"
  by (subst decimal.simps) simp

lemma decimal_digits: "list_all is_digit (decimal n)"
proof (induction n rule: decimal.induct)
  case (1 n)
  show ?case
  proof (cases "n < 10")
    case True
    then show ?thesis by (subst decimal.simps) (simp add: digit_char_props)
  next
    case False
    then have "list_all is_digit (decimal (n div 10))" using 1 by simp
    with False show ?thesis by (subst decimal.simps) (simp add: digit_char_props)
  qed
qed

lemma decimal_head: "\<exists>c cs. decimal n = c # cs \<and> is_digit c"
  using decimal_nonempty [of n] decimal_digits [of n] by (cases "decimal n") auto

lemma decimal_less: "n < 10 \<Longrightarrow> decimal n = [digit_char n]"
  by (subst decimal.simps) simp

lemma decimal_more: "10 \<le> n \<Longrightarrow> decimal n = decimal (n div 10) @ [digit_char (n mod 10)]"
  by (subst decimal.simps) simp

lemmas decimal_eval = decimal_less decimal_more digit_char_def

lemma read_digits_append: "read_digits acc (s @ t) = read_digits (read_digits acc s) t"
  by (induction s arbitrary: acc) simp_all

lemma read_digits_decimal: "read_digits 0 (decimal n) = n"
proof (induction n rule: decimal.induct)
  case (1 n)
  show ?case
  proof (cases "n < 10")
    case True
    then show ?thesis by (subst decimal.simps) (simp add: digit_char_props)
  next
    case False
    then have "read_digits 0 (decimal (n div 10)) = n div 10" using 1 by simp
    with False show ?thesis
      by (subst decimal.simps) (simp add: read_digits_append digit_char_props)
  qed
qed

lemma read_digits_zeros: "read_digits 0 (replicate k (CHR ''0'') @ s) = read_digits 0 s"
  by (induction k) (simp_all add: digit_value_def)

subsection \<open>toFixed(6)\<close>

text \<open>The digits of \<open>fixed6_digits\<close> before the point is set.\<close>

lemma fixed6_digits_parts:
  obtains m where "fixed6_digits a = take (length m - 6) m @ ''.'' @ drop (length m - 6) m"
    and "7 \<le> length m" and "list_all is_digit m"
    and "read_digits 0 m = nat \<lfloor>a * 10 ^ 6 + 1 / 2\<rfloor>"
proof -
  define n where "n = nat \<lfloor>a * 10 ^ 6 + 1 / 2\<rfloor>"
  define m where "m = (if length (decimal n) \<le> 6
     then replicate (6 + 1 - length (decimal n)) (CHR ''0'') @ decimal n else decimal n)"
  have len: "7 \<le> length m" by (auto simp: m_def)
  have "is_digit (CHR ''0'')" by (simp add: is_digit_def)
  then have dig: "list_all is_digit m"
    using decimal_digits [of n] by (auto simp: m_def list_all_iff)
  have eq: "fixed6_digits a = take (length m - 6) m @ ''.'' @ drop (length m - 6) m"
    by (simp add: fixed6_digits_def Let_def n_def m_def)
  have "read_digits 0 m = n"
    by (simp add: m_def read_digits_zeros read_digits_decimal)
  with eq len dig show ?thesis using that n_def by blast
qed

lemma fixed6_digits_shape:
  "\<exists>ip fp. fixed6_digits a = ip @ ''.'' @ fp \<and> ip \<noteq> [] \<and> length fp = 6
     \<and> list_all is_digit ip \<and> list_all is_digit fp"
proof -
  obtain m where m: "fixed6_digits a = take (length m - 6) m @ ''.'' @ drop (length m - 6) m"
    "7 \<le> length m" "list_all is_digit m"
    by (rule fixed6_digits_parts)
  have "take (length m - 6) m \<noteq> []" using m(2) by auto
  moreover have "length (drop (length m - 6) m) = 6" using m(2) by auto
  moreover have "list_all is_digit (take (length m - 6) m)"
    using m(3) by (auto simp: list_all_iff dest: in_set_takeD)
  moreover have "list_all is_digit (drop (length m - 6) m)"
    using m(3) by (auto simp: list_all_iff dest: in_set_dropD)
  ultimately show ?thesis using m(1) by blast
qed

lemma fixed6_digits_value:
  "shown_millionths (fixed6_digits a) = nat \<lfloor>a * 10 ^ 6 + 1 / 2\<rfloor>"
  "shown_millionths (''-'' @ fixed6_digits a) = nat \<lfloor>a * 10 ^ 6 + 1 / 2\<rfloor>"
proof -
  obtain m where m: "fixed6_digits a = take (length m - 6) m @ ''.'' @ drop (length m - 6) m"
    "list_all is_digit m" "read_digits 0 m = nat \<lfloor>a * 10 ^ 6 + 1 / 2\<rfloor>"
    by (rule fixed6_digits_parts)
  have keep: "filter (\<lambda>c. c \<noteq> CHR ''-'' \<and> c \<noteq> CHR ''.'') xs = xs" if "list_all is_digit xs" for xs
    using that is_digit_not_mark by (induction xs) auto
  have t: "list_all is_digit (take (length m - 6) m)"
    using m(2) by (auto simp: list_all_iff dest: in_set_takeD)
  have d: "list_all is_digit (drop (length m - 6) m)"
    using m(2) by (auto simp: list_all_iff dest: in_set_dropD)
  have "filter (\<lambda>c. c \<noteq> CHR ''-'' \<and> c \<noteq> CHR ''.'') (fixed6_digits a) = m"
    by (simp add: m(1) keep [OF t] keep [OF d])
  then show "shown_millionths (fixed6_digits a) = nat \<lfloor>a * 10 ^ 6 + 1 / 2\<rfloor>"
    and "shown_millionths (''-'' @ fixed6_digits a) = nat \<lfloor>a * 10 ^ 6 + 1 / 2\<rfloor>"
    by (simp_all add: shown_millionths_def m(3))
qed

lemma fixed6_digits_head: "\<exists>c cs. fixed6_digits a = c # cs \<and> is_digit c"
proof -
  obtain ip fp where "fixed6_digits a = ip @ ''.'' @ fp" "ip \<noteq> []" "list_all is_digit ip"
    using fixed6_digits_shape by blast
  then show ?thesis by (cases ip) auto
qed

lemma exponent_string_head: "\<exists>c cs. exponent_string rt a = c # cs \<and> is_digit c"
proof -
  obtain s n where sn: "shortest rt a = (s, n)" by (cases "shortest rt a")
  obtain c cs where d: "decimal s = c # cs" "is_digit c" using decimal_head by blast
  show ?thesis by (auto simp: exponent_string_def sn d Let_def)
qed

lemma six_decimals_shape:
  assumes "ip \<noteq> []" "length fp = 6" "list_all is_digit ip" "list_all is_digit fp"
  shows "six_decimals (ip @ ''.'' @ fp)" and "six_decimals (''-'' @ ip @ ''.'' @ fp)"
proof -
  obtain c cs where ip: "ip = c # cs" using assms(1) by (cases ip) auto
  have "is_digit c" using assms(3) ip by simp
  then have c: "c \<noteq> CHR ''-''" by (auto simp: is_digit_def)
  have body: "8 \<le> length (ip @ ''.'' @ fp)
      \<and> list_all is_digit (take (length (ip @ ''.'' @ fp) - 7) (ip @ ''.'' @ fp))
      \<and> (ip @ ''.'' @ fp) ! (length (ip @ ''.'' @ fp) - 7) = CHR ''.''
      \<and> list_all is_digit (drop (length (ip @ ''.'' @ fp) - 6) (ip @ ''.'' @ fp))"
    using assms ip by (simp add: nth_append)
  show "six_decimals (ip @ ''.'' @ fp)"
    using body c unfolding six_decimals_def ip by simp
  show "six_decimals (''-'' @ ip @ ''.'' @ fp)"
    using body unfolding six_decimals_def by simp
qed

lemma toFixed6_six_decimals: "below_1e21 v \<Longrightarrow> six_decimals (toFixed6 rt v)"
proof -
  assume b: "below_1e21 v"
  have fd: "six_decimals (fixed6_digits a)" "six_decimals (''-'' @ fixed6_digits a)" for a
    using fixed6_digits_shape [of a] six_decimals_shape by metis+
  show ?thesis
  proof (cases v)
    case (Fin q)
    then have "\<bar>q\<bar> < 10 ^ 21" using b by (simp add: below_1e21_def)
    then show ?thesis using fd [of q] fd [of "- q"] Fin by (auto simp: toFixed6_def abs_if)
  qed (use b fd in \<open>simp_all add: below_1e21_def toFixed6_def\<close>)
qed

lemma toFixed6_value:
  assumes "\<bar>q\<bar> < 10 ^ 21"
  shows "shown_millionths (toFixed6 rt (Fin q)) = nat \<lfloor>\<bar>q\<bar> * 10 ^ 6 + 1 / 2\<rfloor>"
    and "hd (toFixed6 rt (Fin q)) = CHR ''-'' \<longleftrightarrow> q < 0"
proof -
  have e: "toFixed6 rt (Fin q) = (if q < 0 then ''-'' else []) @ fixed6_digits \<bar>q\<bar>"
    using assms by (simp add: toFixed6_def)
  obtain c cs where h: "fixed6_digits \<bar>q\<bar> = c # cs" "is_digit c"
    using fixed6_digits_head by blast
  show "shown_millionths (toFixed6 rt (Fin q)) = nat \<lfloor>\<bar>q\<bar> * 10 ^ 6 + 1 / 2\<rfloor>"
  proof (cases "q < 0")
    case True
    then have "toFixed6 rt (Fin q) = ''-'' @ fixed6_digits \<bar>q\<bar>" by (simp only: e if_True)
    then show ?thesis by (simp only: fixed6_digits_value)
  next
    case False
    then have "toFixed6 rt (Fin q) = fixed6_digits \<bar>q\<bar>" by (simp only: e if_False append_Nil)
    then show ?thesis by (simp only: fixed6_digits_value)
  qed
  show "hd (toFixed6 rt (Fin q)) = CHR ''-'' \<longleftrightarrow> q < 0"
  proof (cases "q < 0")
    case True
    then have "toFixed6 rt (Fin q) = ''-'' @ fixed6_digits \<bar>q\<bar>" by (simp only: e if_True)
    with True show ?thesis by simp
  next
    case False
    then have "toFixed6 rt (Fin q) = c # cs" by (simp only: e if_False append_Nil h)
    with False h(2) is_digit_not_mark [of c] show ?thesis by simp
  qed
qed

lemma toFixed6_head:
  "\<exists>c cs. toFixed6 rt v = c # cs \<and> c \<noteq> CHR 0xE2"
proof (cases v)
  case (Fin q)
  obtain c cs where f: "fixed6_digits \<bar>q\<bar> = c # cs" "is_digit c"
    using fixed6_digits_head by blast
  obtain c' cs' where e: "exponent_string rt \<bar>q\<bar> = c' # cs'" "is_digit c'"
    using exponent_string_head by blast
  show ?thesis
    using Fin f e is_digit_not_mark [of c] is_digit_not_mark [of c']
    by (simp add: toFixed6_def)
next
  case NegZero
  obtain c cs where f: "fixed6_digits 0 = c # cs" "is_digit c"
    using fixed6_digits_head by blast
  then show ?thesis using NegZero is_digit_not_mark [of c] by (simp add: toFixed6_def)
qed (simp_all add: toFixed6_def)

lemma join_Cons: "join sep (x # xs) = x @ concat (map (\<lambda>y. sep @ y) xs)"
  by (induction xs arbitrary: x) simp_all

lemma predText_Cons:
  "predText rt (v # vs) = toFixed6 rt v @ concat (map (\<lambda>w. '', '' @ toFixed6 rt w) vs)"
  by (simp add: predText_def join_Cons comp_def)

lemma example_toFixed6:
  "toFixed6 rt (Fin 1) = ''1.000000''"
  "toFixed6 rt (Fin (- (5 / 2))) = ''-2.500000''"
proof -
  have "\<lfloor>(1::rat) * 10 ^ 6 + 1 / 2\<rfloor> = 1000000" by (simp add: floor_eq_iff)
  then have n1: "nat \<lfloor>(1::rat) * 10 ^ 6 + 1 / 2\<rfloor> = 1000000" by simp
  have "\<lfloor>(5 / 2 :: rat) * 10 ^ 6 + 1 / 2\<rfloor> = 2500000" by (simp add: floor_eq_iff)
  then have n2: "nat \<lfloor>(5 / 2 :: rat) * 10 ^ 6 + 1 / 2\<rfloor> = 2500000" by simp
  have f1: "fixed6_digits 1 = ''1.000000''"
    unfolding fixed6_digits_def n1 by (simp add: decimal_eval)
  have f2: "fixed6_digits (5 / 2) = ''2.500000''"
    unfolding fixed6_digits_def n2 by (simp add: decimal_eval)
  have "toFixed6 rt (Fin 1) = fixed6_digits 1" by (simp add: toFixed6_def)
  then show "toFixed6 rt (Fin 1) = ''1.000000''" by (simp add: f1)
  have "toFixed6 rt (Fin (- (5 / 2))) = ''-'' @ fixed6_digits (5 / 2)" by (simp add: toFixed6_def)
  then show "toFixed6 rt (Fin (- (5 / 2))) = ''-2.500000''" by (simp add: f2)
qed

text \<open>
  C8, as the code has it. The text for a buffer that is not empty is the \<^verbatim>\<open>toFixed(6)\<close>
  of each value, in the order of the buffer, with \<^verbatim>\<open>", "\<close> before every value but the
  first. When every value is finite with a magnitude below \<open>10^21\<close>, each of them is written
  in fixed-point notation with exactly six decimal places: the digits are those of the
  magnitude rounded to the nearest millionth (a tie goes up), and the minus sign is there
  exactly for a value below zero. \<^verbatim>\<open>NaN\<close> and the infinities are written by name, and a
  magnitude of \<open>10^21\<close> or more in exponent notation. The text is a function of the
  buffer: the same buffer gives the same text.
\<close>

theorem predText_six_decimals:
  assumes "buf \<noteq> []"
  shows "predText rt buf
      = toFixed6 rt (hd buf) @ concat (map (\<lambda>w. '', '' @ toFixed6 rt w) (tl buf))
    \<and> (list_all below_1e21 buf \<longrightarrow>
         (\<forall>v \<in> set buf. six_decimals (toFixed6 rt v))
         \<and> (\<forall>q. Fin q \<in> set buf \<longrightarrow>
               shown_millionths (toFixed6 rt (Fin q)) = nat \<lfloor>\<bar>q\<bar> * 10 ^ 6 + 1 / 2\<rfloor>
               \<and> (hd (toFixed6 rt (Fin q)) = CHR ''-'' \<longleftrightarrow> q < 0)))
    \<and> toFixed6 rt NaN = ''NaN''
    \<and> toFixed6 rt PosInf = ''Infinity''
    \<and> toFixed6 rt NegInf = ''-Infinity''
    \<and> (10 ^ 21 \<le> \<bar>r\<bar> \<longrightarrow>
         toFixed6 rt (Fin r) = (if r < 0 then ''-'' else []) @ exponent_string rt \<bar>r\<bar>)"
proof -
  obtain v vs where "buf = v # vs" using assms by (cases buf) auto
  then have joined: "predText rt buf
      = toFixed6 rt (hd buf) @ concat (map (\<lambda>w. '', '' @ toFixed6 rt w) (tl buf))"
    by (simp add: predText_Cons)
  have shape: "six_decimals (toFixed6 rt v)" if "list_all below_1e21 buf" "v \<in> set buf" for v
  proof -
    from that have "below_1e21 v" by (simp add: list_all_iff)
    then show ?thesis by (rule toFixed6_six_decimals)
  qed
  have digits: "shown_millionths (toFixed6 rt (Fin q)) = nat \<lfloor>\<bar>q\<bar> * 10 ^ 6 + 1 / 2\<rfloor>
      \<and> (hd (toFixed6 rt (Fin q)) = CHR ''-'' \<longleftrightarrow> q < 0)"
    if "list_all below_1e21 buf" "Fin q \<in> set buf" for q
  proof -
    from that have "below_1e21 (Fin q)" by (simp add: list_all_iff)
    then have "\<bar>q\<bar> < 10 ^ 21" by (simp add: below_1e21_def)
    then show ?thesis using toFixed6_value by blast
  qed
  have other: "toFixed6 rt NaN = ''NaN''" "toFixed6 rt PosInf = ''Infinity''"
    "toFixed6 rt NegInf = ''-Infinity''"
    "10 ^ 21 \<le> \<bar>r\<bar> \<longrightarrow>
       toFixed6 rt (Fin r) = (if r < 0 then ''-'' else []) @ exponent_string rt \<bar>r\<bar>"
    by (simp_all add: toFixed6_def)
  from joined shape digits other show ?thesis by blast
qed

theorem predText_six_decimals_witness:
  "predText example_runtime [Fin 1, Fin (- (5 / 2))] = ''1.000000, -2.500000''
   \<and> list_all below_1e21 [Fin 1, Fin (- (5 / 2))]
   \<and> six_decimals ''1.000000'' \<and> six_decimals ''-2.500000''
   \<and> shown_millionths ''-2.500000'' = 2500000"
proof -
  have b: "list_all below_1e21 [Fin 1, Fin (- (5 / 2))]" by (simp add: below_1e21_def)
  have "\<lfloor>\<bar>- (5 / 2) :: rat\<bar> * 10 ^ 6 + 1 / 2\<rfloor> = 2500000" by (simp add: floor_eq_iff)
  then have n: "nat \<lfloor>\<bar>- (5 / 2) :: rat\<bar> * 10 ^ 6 + 1 / 2\<rfloor> = 2500000" by simp
  note t = predText_six_decimals [of "[Fin 1, Fin (- (5 / 2))]" example_runtime]
  from t have "predText example_runtime [Fin 1, Fin (- (5 / 2))] = ''1.000000, -2.500000''"
    by (simp add: example_toFixed6)
  moreover from t b have "six_decimals ''1.000000'' \<and> six_decimals ''-2.500000''"
    by (simp add: example_toFixed6)
  moreover have "Fin (- (5 / 2)) \<in> set [Fin 1, Fin (- (5 / 2))]" by simp
  with t b have "shown_millionths (toFixed6 example_runtime (Fin (- (5 / 2))))
      = nat \<lfloor>\<bar>- (5 / 2) :: rat\<bar> * 10 ^ 6 + 1 / 2\<rfloor>"
    by blast
  then have "shown_millionths ''-2.500000'' = 2500000"
    by (simp only: n example_toFixed6)
  ultimately show ?thesis using b by simp
qed

text \<open>
  \<^verbatim>\<open>NaN\<close> is shown as \<^verbatim>\<open>NaN\<close> and \<open>10^21\<close> as \<^verbatim>\<open>1e+21\<close>: neither has six decimal places.
\<close>

theorem predText_six_decimals_counterexample:
  "[NaN] \<noteq> []
   \<and> predText example_runtime [NaN] = ''NaN''
   \<and> \<not> six_decimals (predText example_runtime [NaN])
   \<and> predText example_runtime [Fin (10 ^ 21)] = ''1e+21''
   \<and> \<not> six_decimals (predText example_runtime [Fin (10 ^ 21)])"
proof -
  have a: "predText example_runtime [NaN] = ''NaN''"
    by (simp add: predText_def toFixed6_def)
  have b: "predText example_runtime [Fin (10 ^ 21)] = ''1e+21''"
    by (simp add: predText_def toFixed6_def exponent_string_def example_runtime_def decimal_eval)
  show ?thesis unfolding a b by (simp add: six_decimals_def)
qed

lemma example_empty_output:
  "predict example_runtime example_config
      (example_state [] None\<lparr>session := Some (\<lambda>fd. Inr [''output'' \<mapsto> []])\<rparr>)
      (example_page ''3,5'' ''0'')
    = Done dash [(''input'', \<lparr>dtype = ''float32'', data = [Fin 3, Fin 5], dims = [1, 2]\<rparr>)]"
proof -
  have s: "session (example_state [] None\<lparr>session := Some (\<lambda>fd. Inr [''output'' \<mapsto> []])\<rparr>)
      = Some (\<lambda>fd. Inr [''output'' \<mapsto> []])"
    by simp
  have c: "INPUT_NAME example_config = ''input''" "OUTPUT_NAME example_config = ''output''"
    by (simp_all add: example_config_def)
  show ?thesis
    by (simp add: predict_run [OF s example_tensor] c read_output_def result_text_def predText_def)
qed

text \<open>
  C9, as the code has it. For an empty buffer the result element shows the dash, which is
  not the empty string. For a buffer that is not empty it shows the joined text, which is
  neither empty nor the dash. So the shown result is never the empty string, and it is the
  dash exactly when the buffer is empty. \<^verbatim>\<open>resetUI\<close> writes the same dash: the result
  element alone does not tell an empty result from a page with no result yet; the status
  line does, \<^verbatim>\<open>Done.\<close> after a prediction and \<^verbatim>\<open>Ready.\<close> after a reset.
\<close>

theorem result_text_dash:
  "result_text rt [] = dash
   \<and> dash \<noteq> []
   \<and> result_text rt buf \<noteq> []
   \<and> (buf \<noteq> [] \<longrightarrow> result_text rt buf = predText rt buf \<and> predText rt buf \<noteq> [])
   \<and> (result_text rt buf = dash \<longleftrightarrow> buf = [])
   \<and> result_el (snd (resetUI st pg)) = result_text rt []
   \<and> status_el (snd (resetUI st pg)) = ''Ready.''
   \<and> (predict rt cfg st d = Done t calls \<longrightarrow>
        status_el (show_outcome (predict rt cfg st d) p) = ''Done.'')"
proof -
  have e: "result_text rt [] = dash" by (simp add: result_text_def predText_def)
  have d: "dash \<noteq> []" "hd dash = CHR 0xE2" by (simp_all add: dash_def)
  have ne: "predText rt buf \<noteq> [] \<and> hd (predText rt buf) \<noteq> CHR 0xE2" if nb: "buf \<noteq> []"
  proof -
    obtain v vs where b: "buf = v # vs" using nb by (cases buf) auto
    obtain c cs where "toFixed6 rt v = c # cs" "c \<noteq> CHR 0xE2" using toFixed6_head by blast
    then show ?thesis by (simp add: b predText_Cons)
  qed
  have r: "result_text rt buf = predText rt buf" if "buf \<noteq> []"
    using ne [OF that] by (simp add: result_text_def)
  have "result_text rt buf \<noteq> []" using e d r ne by (cases "buf = []") auto
  moreover have "result_text rt buf = dash \<longleftrightarrow> buf = []"
    using e d r ne by (cases "buf = []") auto
  moreover have "result_el (snd (resetUI st pg)) = result_text rt []"
    "status_el (snd (resetUI st pg)) = ''Ready.''"
    by (simp_all add: resetUI_def e)
  moreover have "predict rt cfg st d = Done t calls \<longrightarrow>
        status_el (show_outcome (predict rt cfg st d) p) = ''Done.''"
    by (simp add: show_outcome_def)
  ultimately show ?thesis using e d r ne by simp
qed

theorem result_text_dash_witness:
  "result_text example_runtime [] = [CHR 0xE2, CHR 0x80, CHR 0x94]
   \<and> result_text example_runtime [Fin 1, Fin (- (5 / 2))] = ''1.000000, -2.500000''
   \<and> status_el (show_outcome
        (predict example_runtime example_config
          (example_state [] None\<lparr>session := Some (\<lambda>fd. Inr [''output'' \<mapsto> []])\<rparr>)
          (example_page ''3,5'' ''0''))
        \<lparr>result_el = ''1.000000'', status_el = ''Ready.''\<rparr>) = ''Done.''"
proof -
  have p: "predText example_runtime [Fin 1, Fin (- (5 / 2))] = ''1.000000, -2.500000''"
    by (simp add: predText_def example_toFixed6)
  from result_text_dash [where rt = example_runtime and buf = "[Fin 1, Fin (- (5 / 2))]"
      and cfg = example_config
      and st = "example_state [] None\<lparr>session := Some (\<lambda>fd. Inr [''output'' \<mapsto> []])\<rparr>"
      and d = "example_page ''3,5'' ''0''" and t = dash
      and calls = "[(''input'', \<lparr>dtype = ''float32'', data = [Fin 3, Fin 5], dims = [1, 2]\<rparr>)]"
      and p = "\<lparr>result_el = ''1.000000'', status_el = ''Ready.''\<rparr>"]
  show ?thesis
    by (simp add: p example_empty_output) (simp add: dash_def)
qed

text \<open>
  A prediction whose output buffer is empty and a reset leave the same text in the result
  element.
\<close>

theorem result_text_dash_counterexample:
  "result_el (show_outcome
        (predict example_runtime example_config
          (example_state [] None\<lparr>session := Some (\<lambda>fd. Inr [''output'' \<mapsto> []])\<rparr>)
          (example_page ''3,5'' ''0''))
        \<lparr>result_el = ''1.000000'', status_el = ''Done.''\<rparr>)
     = [CHR 0xE2, CHR 0x80, CHR 0x94]
   \<and> result_el (snd (resetUI (example_state [] None)
        (example_page ''3,5'' ''0'', \<lparr>result_el = ''1.000000'', status_el = ''Done.''\<rparr>)))
     = [CHR 0xE2, CHR 0x80, CHR 0x94]"
  by (simp add: example_empty_output show_outcome_def resetUI_def dash_def)

end
